theory Spec2Isabelle
  imports Complex_Main "HOL-Library.AList"
begin

section \<open>Dates and times\<close>

text \<open>
  Python's naive \<^verbatim>\<open>datetime\<close> values are modelled by integers. A \<^verbatim>\<open>date\<close> is its
  proleptic Gregorian ordinal (\<^verbatim>\<open>date.toordinal()\<close>), a \<^verbatim>\<open>time\<close> is the number of
  microseconds since midnight (between 0 and 86399999999), a \<^verbatim>\<open>timedelta\<close> is a number of
  microseconds, and a \<^verbatim>\<open>datetime\<close> is the number of microseconds since midnight of
  ordinal 0, so that \<^verbatim>\<open>datetime.combine\<close>, \<^verbatim>\<open>.date()\<close> and \<^verbatim>\<open>.time()\<close> are the
  usual positional encoding and its two projections. Comparison of datetimes is
  comparison of these integers, and adding a timedelta is integer addition, as in
  CPython. The calendar's bounds (years 1 to 9999, beyond which CPython raises
  OverflowError) are not part of the model.
\<close>

type_synonym date = int
type_synonym time = int
type_synonym datetime = int
type_synonym timedelta = int

definition DAY :: int where
  "DAY = 86400000000"

definition combine :: "date \<Rightarrow> time \<Rightarrow> datetime" where
  "combine d t = d * DAY + t"

definition date_of :: "datetime \<Rightarrow> date" where
  "date_of x = x div DAY"

definition time_of :: "datetime \<Rightarrow> time" where
  "time_of x = x mod DAY"

text \<open>\<^verbatim>\<open>date.weekday()\<close>: Monday is 0; ordinal 1 (0001-01-01) is a Monday.\<close>

definition weekday :: "date \<Rightarrow> int" where
  "weekday d = (d + 6) mod 7"

text \<open>\<^verbatim>\<open>dt.time(h, m, s)\<close>, \<^verbatim>\<open>dt.timedelta(minutes=m)\<close> and \<^verbatim>\<open>dt.timedelta(days=n)\<close>
  (the latter added to a date, so counted in days).\<close>

definition mk_time :: "int \<Rightarrow> int \<Rightarrow> int \<Rightarrow> time" where
  "mk_time h m s = ((h * 60 + m) * 60 + s) * 1000000"

definition timedelta_minutes :: "int \<Rightarrow> timedelta" where
  "timedelta_minutes m = m * 60000000"

definition timedelta_days :: "int \<Rightarrow> int" where
  "timedelta_days n = n"

section \<open>The tables of \<^verbatim>\<open>app/models.py\<close>\<close>

text \<open>
  Every model class is a table of rows; a row is a record of its columns. The columns
  that no modelled function reads (\<^verbatim>\<open>pin_hash\<close>, \<^verbatim>\<open>Tutor.created_at\<close>, \<^verbatim>\<open>note\<close>, the
  surrogate keys of the availability, exception and association rows, the subject's
  display columns) are left out.
\<close>

record Subject =
  S_id :: int
  S_name :: string

record Tutor =
  T_id :: int
  T_name :: string
  T_phone :: string
  T_is_active :: bool

record TutorSubject =
  TS_tutor_id :: int
  TS_subject_id :: int

record WeeklyAvailability =
  WA_tutor_id :: int
  WA_day_of_week :: int
  WA_start_time :: time
  WA_end_time :: time

record TutorException =
  TE_tutor_id :: int
  TE_date :: date
  TE_start_time :: "time option"
  TE_end_time :: "time option"

record Booking =
  B_id :: int
  B_tutor_id :: int
  B_subject_id :: "int option"
  B_student_name :: string
  B_student_phone :: string
  B_start_time :: datetime
  B_end_time :: datetime
  B_created_at :: datetime
  B_is_canceled :: bool
  B_canceled_at :: "datetime option"
  B_cancel_reason :: "string option"

record database =
  subjects :: "Subject list"
  tutors :: "Tutor list"
  tutor_subjects :: "TutorSubject list"
  weekly_availability :: "WeeklyAvailability list"
  tutor_exceptions :: "TutorException list"
  bookings :: "Booking list"

text \<open>The ORM relationships of a tutor: the rows of the child table that carry the
  tutor's key, in table order.\<close>

definition Tutor_weekly_availability :: "database \<Rightarrow> Tutor \<Rightarrow> WeeklyAvailability list" where
  "Tutor_weekly_availability db tutor =
     [avail \<leftarrow> weekly_availability db. WA_tutor_id avail = T_id tutor]"

definition Tutor_exceptions :: "database \<Rightarrow> Tutor \<Rightarrow> TutorException list" where
  "Tutor_exceptions db tutor =
     [exception \<leftarrow> tutor_exceptions db. TE_tutor_id exception = T_id tutor]"

definition Tutor_bookings :: "database \<Rightarrow> Tutor \<Rightarrow> Booking list" where
  "Tutor_bookings db tutor = [booking \<leftarrow> bookings db. B_tutor_id booking = T_id tutor]"

section \<open>\<^verbatim>\<open>Tutor\<close> and \<^verbatim>\<open>TutorException\<close> methods\<close>

definition total_bookings :: "database \<Rightarrow> Tutor \<Rightarrow> int" where
  "total_bookings db tutor =
     sum_list [1. booking \<leftarrow> Tutor_bookings db tutor, \<not> B_is_canceled booking]"

definition availability_for_day :: "database \<Rightarrow> Tutor \<Rightarrow> int \<Rightarrow> WeeklyAvailability list" where
  "availability_for_day db tutor wd =
     [avail \<leftarrow> Tutor_weekly_availability db tutor. WA_day_of_week avail = wd]"

definition is_full_day :: "TutorException \<Rightarrow> bool" where
  "is_full_day x = (TE_start_time x = None \<and> TE_end_time x = None)"

definition overlaps :: "TutorException \<Rightarrow> datetime \<Rightarrow> datetime \<Rightarrow> bool" where
  "overlaps x start_dt end_dt =
     (if TE_date x \<noteq> date_of start_dt then False
      else if is_full_day x then True
      else (case TE_start_time x of
              None \<Rightarrow> True
            | Some st \<Rightarrow>
                (case TE_end_time x of
                   None \<Rightarrow> True
                 | Some en \<Rightarrow>
                     (let exc_start = combine (TE_date x) st;
                          exc_end = combine (TE_date x) en
                      in start_dt < exc_end \<and> end_dt > exc_start))))"

text \<open>The first loop of \<^verbatim>\<open>is_available_for_slot\<close>: true when the loop reaches its
  \<^verbatim>\<open>return False\<close>, false when it runs to its end.\<close>

fun exception_blocks :: "TutorException list \<Rightarrow> datetime \<Rightarrow> datetime \<Rightarrow> bool" where
  "exception_blocks [] start_dt end_dt = False"
| "exception_blocks (exception # rest) start_dt end_dt =
     (if overlaps exception start_dt end_dt then True
      else exception_blocks rest start_dt end_dt)"

text \<open>The last loop: canceled bookings are skipped, an overlapping one returns.\<close>

fun booking_blocks :: "Booking list \<Rightarrow> datetime \<Rightarrow> datetime \<Rightarrow> bool" where
  "booking_blocks [] start_dt end_dt = False"
| "booking_blocks (booking # rest) start_dt end_dt =
     (if B_is_canceled booking then booking_blocks rest start_dt end_dt
      else if B_start_time booking < end_dt \<and> B_end_time booking > start_dt then True
      else booking_blocks rest start_dt end_dt)"

definition is_available_for_slot :: "database \<Rightarrow> Tutor \<Rightarrow> datetime \<Rightarrow> datetime \<Rightarrow> bool" where
  "is_available_for_slot db tutor start_dt end_dt =
     (if exception_blocks (Tutor_exceptions db tutor) start_dt end_dt then False
      else
        (let blocks = availability_for_day db tutor (weekday (date_of start_dt));
             block_matches =
               list_ex (\<lambda>block. WA_start_time block \<le> time_of start_dt
                                \<and> WA_end_time block \<ge> time_of end_dt) blocks
         in if \<not> block_matches then False
            else if booking_blocks (Tutor_bookings db tutor) start_dt end_dt then False
            else True))"

section \<open>\<^verbatim>\<open>WeeklyAvailability.generate_slots\<close>\<close>

text \<open>The \<^verbatim>\<open>while\<close> loop may run forever (a step of zero or less never moves the
  cursor past the end), so it is a partial function: \<open>None\<close> is "does not return".\<close>

partial_function (option) generate_slots_loop ::
  "datetime \<Rightarrow> timedelta \<Rightarrow> datetime \<Rightarrow> (datetime \<times> datetime) list
     \<Rightarrow> (datetime \<times> datetime) list option" where
  "generate_slots_loop cursor step end_dt slots =
     (if cursor + step \<le> end_dt
      then generate_slots_loop (cursor + step) step end_dt (slots @ [(cursor, cursor + step)])
      else Some slots)"

definition generate_slots ::
  "WeeklyAvailability \<Rightarrow> date \<Rightarrow> int \<Rightarrow> (datetime \<times> datetime) list option" where
  "generate_slots block d slot_minutes =
     (let start_dt = combine d (WA_start_time block);
          end_dt = combine d (WA_end_time block);
          step = timedelta_minutes slot_minutes
      in generate_slots_loop start_dt step end_dt [])"

text \<open>The closed form of what the loop appends: \<open>n\<close> consecutive slots of length
  \<open>step\<close>, the first starting at \<open>c\<close>.\<close>

definition slot_seq :: "datetime \<Rightarrow> timedelta \<Rightarrow> nat \<Rightarrow> (datetime \<times> datetime) list" where
  "slot_seq c step n = map (\<lambda>k. (c + int k * step, c + int k * step + step)) [0..<n]"

section \<open>Configuration\<close>

text \<open>\<^verbatim>\<open>current_app.config.get('BOOKING_SLOT_MINUTES', 30)\<close>: the key may be absent, and
  \<^verbatim>\<open>config.py\<close> stores an integer when it is present.\<close>

record config =
  BOOKING_SLOT_MINUTES :: "int option"

definition slot_minutes :: "config \<Rightarrow> int" where
  "slot_minutes cfg = (case BOOKING_SLOT_MINUTES cfg of None \<Rightarrow> 30 | Some m \<Rightarrow> m)"

section \<open>Module functions of \<^verbatim>\<open>app/models.py\<close>\<close>

text \<open>The query \<^verbatim>\<open>Tutor.query.join(TutorSubject).filter(TutorSubject.subject_id ==
  subject_id, Tutor.is_active.is_(True)).all()\<close>: one row for every pair of an
  association row of the subject and an active tutor with the association's tutor key.
  SQL leaves the order of the rows open; the model lists them by association row, then
  by tutor row.\<close>

definition active_tutors_for_subject :: "database \<Rightarrow> int \<Rightarrow> Tutor list" where
  "active_tutors_for_subject db subject_id =
     [tutor. ts \<leftarrow> tutor_subjects db, TS_subject_id ts = subject_id,
             tutor \<leftarrow> tutors db, T_id tutor = TS_tutor_id ts \<and> T_is_active tutor]"

definition available_tutors_for_slot ::
  "database \<Rightarrow> int \<Rightarrow> datetime \<Rightarrow> datetime \<Rightarrow> Tutor list" where
  "available_tutors_for_slot db subject_id start_dt end_dt =
     [tutor \<leftarrow> active_tutors_for_subject db subject_id.
        is_available_for_slot db tutor start_dt end_dt]"

datatype py_error = IndexError

text \<open>\<^verbatim>\<open>random.choice(seq)\<close> raises IndexError on an empty sequence and otherwise
  returns \<^verbatim>\<open>seq[i]\<close> for an index \<open>i\<close> below the length drawn by the generator; the
  draw is the parameter \<open>r\<close>, reduced modulo the length.\<close>

definition random_choice :: "nat \<Rightarrow> 'a list \<Rightarrow> py_error + 'a" where
  "random_choice r xs = (if xs = [] then Inl IndexError else Inr (xs ! (r mod length xs)))"

text \<open>The dictionary comprehension of \<^verbatim>\<open>pick_fair_tutor\<close>: an insertion-ordered
  dictionary keyed by tutor id, a later entry for the same key replacing the value.
  The lookup \<^verbatim>\<open>booking_counts[tutor.id]\<close> is made for candidates only, whose keys are
  all in the dictionary, so it is a lookup that finds its key.\<close>

definition booking_counts_of :: "database \<Rightarrow> Tutor list \<Rightarrow> (int \<times> int) list" where
  "booking_counts_of db candidates =
     fold (\<lambda>tutor counts.
            AList.update (T_id tutor)
              (sum_list [1. booking \<leftarrow> Tutor_bookings db tutor, \<not> B_is_canceled booking])
              counts)
       candidates []"

definition pick_fair_tutor :: "database \<Rightarrow> Tutor list \<Rightarrow> nat \<Rightarrow> py_error + Tutor option" where
  "pick_fair_tutor db candidates r =
     (if candidates = [] then Inr None
      else
        (let booking_counts = booking_counts_of db candidates;
             min_count = min_list (map snd booking_counts);
             smallest = [tutor \<leftarrow> candidates.
                           map_of booking_counts (T_id tutor) = Some min_count]
         in case random_choice r smallest of
              Inl err \<Rightarrow> Inl err
            | Inr tutor \<Rightarrow> Inr (Some tutor)))"

text \<open>\<^verbatim>\<open>slots.setdefault(start_dt, []).append(tutor)\<close>\<close>

definition setdefault_append ::
  "(datetime \<rightharpoonup> Tutor list) \<Rightarrow> datetime \<Rightarrow> Tutor \<Rightarrow> (datetime \<rightharpoonup> Tutor list)" where
  "setdefault_append slots start_dt tutor =
     slots(start_dt \<mapsto> (case slots start_dt of None \<Rightarrow> [] | Some l \<Rightarrow> l) @ [tutor])"

text \<open>The three nested loops of \<^verbatim>\<open>collect_open_slots\<close>, innermost first. A call of
  \<^verbatim>\<open>generate_slots\<close> that does not return leaves the whole function without a result.\<close>

fun collect_slots ::
  "database \<Rightarrow> Tutor \<Rightarrow> (datetime \<times> datetime) list \<Rightarrow> (datetime \<rightharpoonup> Tutor list)
     \<Rightarrow> (datetime \<rightharpoonup> Tutor list)" where
  "collect_slots db tutor [] slots = slots"
| "collect_slots db tutor ((start_dt, end_dt) # rest) slots =
     collect_slots db tutor rest
       (if is_available_for_slot db tutor start_dt end_dt
        then setdefault_append slots start_dt tutor else slots)"

fun collect_blocks ::
  "database \<Rightarrow> Tutor \<Rightarrow> date \<Rightarrow> int \<Rightarrow> WeeklyAvailability list
     \<Rightarrow> (datetime \<rightharpoonup> Tutor list) \<Rightarrow> (datetime \<rightharpoonup> Tutor list) option" where
  "collect_blocks db tutor target_date mins [] slots = Some slots"
| "collect_blocks db tutor target_date mins (block # rest) slots =
     (case generate_slots block target_date mins of
        None \<Rightarrow> None
      | Some generated \<Rightarrow>
          collect_blocks db tutor target_date mins rest
            (collect_slots db tutor generated slots))"

fun collect_tutors ::
  "database \<Rightarrow> date \<Rightarrow> int \<Rightarrow> int \<Rightarrow> Tutor list
     \<Rightarrow> (datetime \<rightharpoonup> Tutor list) \<Rightarrow> (datetime \<rightharpoonup> Tutor list) option" where
  "collect_tutors db target_date mins wd [] slots = Some slots"
| "collect_tutors db target_date mins wd (tutor # rest) slots =
     (let availabilities = availability_for_day db tutor wd
      in if availabilities = [] then collect_tutors db target_date mins wd rest slots
         else (case collect_blocks db tutor target_date mins availabilities slots of
                 None \<Rightarrow> None
               | Some slots' \<Rightarrow> collect_tutors db target_date mins wd rest slots'))"

definition collect_open_slots ::
  "config \<Rightarrow> database \<Rightarrow> int \<Rightarrow> date \<Rightarrow> (datetime \<rightharpoonup> Tutor list) option" where
  "collect_open_slots cfg db subject_id target_date =
     (let mins = slot_minutes cfg;
          tutors' = active_tutors_for_subject db subject_id;
          wd = weekday target_date
      in collect_tutors db target_date mins wd tutors' Map.empty)"

section \<open>The booking window of \<^verbatim>\<open>app/student_routes.py\<close>\<close>

text \<open>The clock \<^verbatim>\<open>_pacific_now()\<close> is a parameter: the wall-clock date and time in
  \<^verbatim>\<open>America/Los_Angeles\<close>. \<^verbatim>\<open>_minimum_bookable_date\<close> reads it only when called without
  an argument.\<close>

definition minimum_bookable_date :: "datetime \<Rightarrow> datetime option \<Rightarrow> date" where
  "minimum_bookable_date pacific_now now_arg =
     (let now = (case now_arg of None \<Rightarrow> pacific_now | Some n \<Rightarrow> n);
          min_date = date_of now + timedelta_days 1
      in if time_of now \<ge> mk_time 22 0 0 then min_date + timedelta_days 1 else min_date)"

text \<open>\<^verbatim>\<open>min_date.strftime('%B %d, %Y')\<close> is a library function of the calendar; it is the
  parameter \<open>strftime\<close>.\<close>

definition booking_window_status ::
  "(date \<Rightarrow> string) \<Rightarrow> datetime \<Rightarrow> date \<Rightarrow> bool \<times> string \<times> date" where
  "booking_window_status strftime pacific_now target_date =
     (let now = pacific_now;
          min_date = minimum_bookable_date pacific_now (Some now)
      in if target_date < min_date
         then
           (let reason =
                  (if target_date \<le> date_of now
                   then ''Same-day bookings are not available.''
                   else ''After 10:00 PM Pacific, next-day sessions close.'');
                message = reason @ '' Earliest available date is '' @ strftime min_date
            in (False, message, min_date))
         else (True, [], min_date))"

section \<open>The routes \<^verbatim>\<open>book\<close> and \<^verbatim>\<open>cancel_booking\<close>\<close>

text \<open>
  A response is the page rendered or the redirect issued, with the message flashed
  before it (message and category), or the error page of an exception that the route
  does not catch. What a route reads besides the database is its environment: the two
  clocks, the draw of the random generator, whether the storage fails at commit for a
  reason other than a constraint, and the date formatter.
\<close>

datatype db_error = IntegrityError | OperationalError

datatype response =
    Booking_page string string
  | Confirmation Booking Tutor
  | Redirect_login string string
  | Redirect_dashboard string string
  | Not_found
  | Server_error py_error
  | Storage_error db_error

record environment =
  pacific_now :: datetime
  utcnow :: datetime
  random_draw :: nat
  storage_fault :: bool
  strftime_long :: "date \<Rightarrow> string"

text \<open>Python's \<^verbatim>\<open>str.strip()\<close> and \<^verbatim>\<open>str.isdigit()\<close>. A character of a string is its code
  point, below 256. Among these \<^verbatim>\<open>str.isspace()\<close> holds of 9 to 13, 28 to 32, 133 (U+0085)
  and 160 (U+00A0), and \<^verbatim>\<open>str.isdigit()\<close> of 48 to 57 and of the superscript digits 178,
  179 and 185 (U+00B2, U+00B3, U+00B9).\<close>

definition isspace :: "char \<Rightarrow> bool" where
  "isspace c =
     (let n = (of_char c :: nat)
      in (9 \<le> n \<and> n \<le> 13) \<or> (28 \<le> n \<and> n \<le> 32) \<or> n = 133 \<or> n = 160)"

definition isdigit :: "char \<Rightarrow> bool" where
  "isdigit c =
     (let n = (of_char c :: nat)
      in (48 \<le> n \<and> n \<le> 57) \<or> n = 178 \<or> n = 179 \<or> n = 185)"

definition strip :: "string \<Rightarrow> string" where
  "strip s = rev (dropWhile isspace (rev (dropWhile isspace s)))"

definition normalize_phone :: "string \<Rightarrow> string" where
  "normalize_phone raw = [ch \<leftarrow> raw. isdigit ch]"

text \<open>A form field that the route parses (\<^verbatim>\<open>int\<close>, \<^verbatim>\<open>strptime\<close>): empty, rejected by
  the parser with ValueError, or parsed.\<close>

datatype 'a field = Missing | Malformed | Parsed 'a

record book_form =
  F_student_name :: string
  F_student_phone :: string
  F_subject_id :: "int field"
  F_date :: "date field"
  F_start_time :: "time field"

text \<open>\<^verbatim>\<open>db.session.add(booking); db.session.commit()\<close>: the insert fails with
  IntegrityError when a row with the same tutor and start time exists (the constraint
  \<^verbatim>\<open>uq_tutor_booking_start\<close>, which does not look at \<^verbatim>\<open>is_canceled\<close>); any other
  failure of the storage is OperationalError. The key of the new row is one more than
  the largest key in the table.\<close>

definition next_booking_id :: "database \<Rightarrow> int" where
  "next_booking_id db = fold max (map B_id (bookings db)) 0 + 1"

definition commit_booking :: "database \<Rightarrow> bool \<Rightarrow> Booking \<Rightarrow> db_error + database" where
  "commit_booking db fault booking =
     (if fault then Inl OperationalError
      else if list_ex (\<lambda>row. B_tutor_id row = B_tutor_id booking
                              \<and> B_start_time row = B_start_time booking) (bookings db)
      then Inl IntegrityError
      else Inr (db\<lparr>bookings := bookings db @ [booking]\<rparr>))"

text \<open>The route \<^verbatim>\<open>book\<close> in two parts. \<open>book_validate\<close> is the route up to the
  booking-window check: it returns the page the route renders on a rejected request,
  or else the values the rest of the route works with (the parsed subject id, the
  subject row, the stripped name, the digits of the phone number, the date and the
  start time). \<open>book\<close> is the whole route: selection, insert and commit follow a
  request that passed.\<close>

definition book_validate ::
  "environment \<Rightarrow> database \<Rightarrow> book_form
     \<Rightarrow> response + (int \<times> Subject \<times> string \<times> string \<times> date \<times> time)" where
  "book_validate env db form =
     (let name = strip (F_student_name form);
          phone = normalize_phone (F_student_phone form)
      in if name = [] \<or> phone = [] \<or> F_subject_id form = Missing \<or> F_date form = Missing
            \<or> F_start_time form = Missing
         then Inl (Booking_page ''Please complete all booking details.'' ''danger'')
         else
           (case F_subject_id form of
              Parsed subject_id \<Rightarrow>
                (case find (\<lambda>subject. S_id subject = subject_id) (subjects db) of
                   None \<Rightarrow> Inl (Booking_page ''Selected subject no longer exists.'' ''danger'')
                 | Some subject \<Rightarrow>
                     (case (F_date form, F_start_time form) of
                        (Parsed target_date, Parsed start_time) \<Rightarrow>
                          (case booking_window_status (strftime_long env) (pacific_now env)
                                  target_date of
                             (allowed, window_message, _) \<Rightarrow>
                               if \<not> allowed then Inl (Booking_page window_message ''warning'')
                               else Inr (subject_id, subject, name, phone, target_date,
                                         start_time))
                      | _ \<Rightarrow> Inl (Booking_page ''Invalid date or time value.'' ''danger'')))
            | _ \<Rightarrow> Inl (Booking_page ''Invalid subject selection.'' ''danger'')))"

definition book :: "config \<Rightarrow> environment \<Rightarrow> database \<Rightarrow> book_form \<Rightarrow> database \<times> response" where
  "book cfg env db form =
     (case book_validate env db form of
        Inl page \<Rightarrow> (db, page)
      | Inr (subject_id, subject, name, phone, target_date, start_time) \<Rightarrow>
          (let start_dt = combine target_date start_time;
               end_dt = start_dt + timedelta_minutes (slot_minutes cfg);
               candidates = available_tutors_for_slot db subject_id start_dt end_dt
           in case pick_fair_tutor db candidates (random_draw env) of
                Inl err \<Rightarrow> (db, Server_error err)
              | Inr None \<Rightarrow>
                  (db, Booking_page
                         ''Sorry, that time was just booked. Please choose another slot.''
                         ''warning'')
              | Inr (Some tutor) \<Rightarrow>
                  (let booking =
                         \<lparr>B_id = next_booking_id db,
                          B_tutor_id = T_id tutor,
                          B_subject_id = Some (S_id subject),
                          B_student_name = name,
                          B_student_phone = phone,
                          B_start_time = start_dt,
                          B_end_time = end_dt,
                          B_created_at = utcnow env,
                          B_is_canceled = False,
                          B_canceled_at = None,
                          B_cancel_reason = None\<rparr>
                   in case commit_booking db (storage_fault env) booking of
                        Inl _ \<Rightarrow>
                          (db, Booking_page
                                 ''Unable to confirm booking. Please try another time slot.''
                                 ''danger'')
                      | Inr db' \<Rightarrow> (db', Confirmation booking tutor))))"

text \<open>\<^verbatim>\<open>cancel_booking\<close> behind \<^verbatim>\<open>tutor_login_required\<close>: \<open>session_tutor_id\<close> is
  \<^verbatim>\<open>session.get('tutor_id')\<close>, \<open>raw_reason\<close> the form field \<^verbatim>\<open>cancel_reason\<close> (the empty
  string when absent). The commit writes the three changed columns of the row with
  the booking's key; the route does not catch a commit that fails (\<open>fault\<close>), which
  then writes nothing.\<close>

definition get_current_tutor :: "database \<Rightarrow> int option \<Rightarrow> Tutor option" where
  "get_current_tutor db session_tutor_id =
     (case session_tutor_id of
        None \<Rightarrow> None
      | Some tutor_id \<Rightarrow>
          if tutor_id = 0 then None else find (\<lambda>tutor. T_id tutor = tutor_id) (tutors db))"

definition cancel_booking ::
  "datetime \<Rightarrow> bool \<Rightarrow> database \<Rightarrow> int option \<Rightarrow> int \<Rightarrow> string
     \<Rightarrow> database \<times> response" where
  "cancel_booking utc_now fault db session_tutor_id booking_id raw_reason =
     (if session_tutor_id = None \<or> session_tutor_id = Some 0
      then (db, Redirect_login ''Please log in to access the tutor portal.'' ''warning'')
      else
        (case get_current_tutor db session_tutor_id of
           None \<Rightarrow> (db, Redirect_login ''Please log in to access the tutor portal.'' ''warning'')
         | Some tutor \<Rightarrow>
             (case find (\<lambda>booking. B_id booking = booking_id) (bookings db) of
                None \<Rightarrow> (db, Not_found)
              | Some booking \<Rightarrow>
                  if B_tutor_id booking \<noteq> T_id tutor
                  then (db, Redirect_dashboard ''You cannot modify another tutor's booking.''
                              ''danger'')
                  else if B_is_canceled booking
                  then (db, Redirect_dashboard ''That booking is already canceled.'' ''info'')
                  else
                    (let stripped = strip raw_reason;
                         reason = (if stripped = [] then None else Some stripped);
                         cancel_reason =
                           (case reason of None \<Rightarrow> None | Some r \<Rightarrow> Some (take 255 r))
                     in if fault then (db, Storage_error OperationalError)
                        else
                          (db\<lparr>bookings :=
                                map (\<lambda>row. if B_id row = booking_id
                                            then row\<lparr>B_is_canceled := True,
                                                     B_canceled_at := Some utc_now,
                                                     B_cancel_reason := cancel_reason\<rparr>
                                            else row)
                                  (bookings db)\<rparr>,
                           Redirect_dashboard
                             ''Booking canceled. Please notify the student if possible.''
                             ''info'')))))"

section \<open>Sequences of operations and the booking invariant\<close>

text \<open>Two bookings overlap when their half-open intervals \<open>[start, end)\<close> have an
  instant in common: the later start lies before the earlier end.\<close>

definition intervals_overlap :: "Booking \<Rightarrow> Booking \<Rightarrow> bool" where
  "intervals_overlap a b =
     (max (B_start_time a) (B_start_time b) < min (B_end_time a) (B_end_time b))"

text \<open>No two non-canceled rows of a list of bookings overlap.\<close>

fun active_overlap_free :: "Booking list \<Rightarrow> bool" where
  "active_overlap_free [] = True"
| "active_overlap_free (b # rest) =
     ((B_is_canceled b \<or> list_all (\<lambda>c. B_is_canceled c \<or> \<not> intervals_overlap b c) rest)
      \<and> active_overlap_free rest)"

text \<open>A request served by one of the two routes that write bookings, with everything it
  reads besides the database; a sequence of requests is served one after the other.\<close>

datatype operation =
    Book config environment book_form
  | Cancel datetime bool "int option" int string

fun apply_operation :: "database \<Rightarrow> operation \<Rightarrow> database" where
  "apply_operation db (Book cfg env form) = fst (book cfg env db form)"
| "apply_operation db (Cancel utc_now fault session_tutor_id booking_id raw_reason) =
     fst (cancel_booking utc_now fault db session_tutor_id booking_id raw_reason)"

fun run_operations :: "database \<Rightarrow> operation list \<Rightarrow> database" where
  "run_operations db [] = db"
| "run_operations db (op # ops) = run_operations (apply_operation db op) ops"

section \<open>The three gates of \<^verbatim>\<open>is_available_for_slot\<close>\<close>

text \<open>Each gate is one of the three tests of the method, as the method computes it; a
  gate passes when its test does not make the method return \<^verbatim>\<open>False\<close>.\<close>

definition exception_gate :: "database \<Rightarrow> Tutor \<Rightarrow> datetime \<Rightarrow> datetime \<Rightarrow> bool" where
  "exception_gate db tutor start_dt end_dt =
     (\<not> exception_blocks (Tutor_exceptions db tutor) start_dt end_dt)"

definition block_gate :: "database \<Rightarrow> Tutor \<Rightarrow> datetime \<Rightarrow> datetime \<Rightarrow> bool" where
  "block_gate db tutor start_dt end_dt =
     list_ex (\<lambda>block. WA_start_time block \<le> time_of start_dt
                      \<and> WA_end_time block \<ge> time_of end_dt)
       (availability_for_day db tutor (weekday (date_of start_dt)))"

definition booking_gate :: "database \<Rightarrow> Tutor \<Rightarrow> datetime \<Rightarrow> datetime \<Rightarrow> bool" where
  "booking_gate db tutor start_dt end_dt =
     (\<not> booking_blocks (Tutor_bookings db tutor) start_dt end_dt)"

text \<open>The three tests by name, and their evaluation in a given order: the evaluation
  stops at the first gate that fails, and returns the result together with the gates
  it has evaluated.\<close>

datatype gate = Exception_gate | Block_gate | Booking_gate

fun gate_passes :: "database \<Rightarrow> Tutor \<Rightarrow> datetime \<Rightarrow> datetime \<Rightarrow> gate \<Rightarrow> bool" where
  "gate_passes db tutor start_dt end_dt Exception_gate =
     exception_gate db tutor start_dt end_dt"
| "gate_passes db tutor start_dt end_dt Block_gate = block_gate db tutor start_dt end_dt"
| "gate_passes db tutor start_dt end_dt Booking_gate =
     booking_gate db tutor start_dt end_dt"

fun evaluate_gates :: "(gate \<Rightarrow> bool) \<Rightarrow> gate list \<Rightarrow> bool \<times> gate list" where
  "evaluate_gates passes [] = (True, [])"
| "evaluate_gates passes (g # gs) =
     (if \<not> passes g then (False, [g])
      else (case evaluate_gates passes gs of (result, evaluated) \<Rightarrow> (result, g # evaluated)))"

section \<open>Load by tutor key\<close>

text \<open>The number of non-canceled bookings that carry a given tutor key: what
  \<open>total_bookings\<close> counts for a tutor with that key.\<close>

definition bookings_of_id :: "database \<Rightarrow> int \<Rightarrow> int" where
  "bookings_of_id db tutor_id =
     sum_list [1. booking \<leftarrow> [b \<leftarrow> bookings db. B_tutor_id b = tutor_id],
                  \<not> B_is_canceled booking]"

section \<open>Reading a slot mapping\<close>

text \<open>\<^verbatim>\<open>slots.get(start_dt, [])\<close>: the tutors listed under a key, none when the key is
  absent.\<close>

definition tutors_at :: "(datetime \<rightharpoonup> Tutor list) \<Rightarrow> datetime \<Rightarrow> Tutor list" where
  "tutors_at slots start_dt = (case slots start_dt of None \<Rightarrow> [] | Some l \<Rightarrow> l)"

section \<open>Example data\<close>

text \<open>Monday 2024-01-01 is ordinal 738886. Tutor 1 offers Mondays 15:00 to 17:00.\<close>

definition monday :: date where
  "monday = 738886"

definition block_15_17 :: WeeklyAvailability where
  "block_15_17 =
     \<lparr>WA_tutor_id = 1, WA_day_of_week = 0,
      WA_start_time = mk_time 15 0 0, WA_end_time = mk_time 17 0 0\<rparr>"

text \<open>Tutor 2 offers Mondays 00:00 to 23:59 and has blocked the whole of Tuesday
  2024-01-02. Both tutors teach subject 1, tutor 1 alone subject 2. Tutor 1 has a
  booking 15:30 to 16:00 on the Monday and a canceled one 16:30 to 17:00.\<close>

definition tutor_a :: Tutor where
  "tutor_a = \<lparr>T_id = 1, T_name = ''A'', T_phone = ''5550000001'', T_is_active = True\<rparr>"

definition tutor_b :: Tutor where
  "tutor_b = \<lparr>T_id = 2, T_name = ''B'', T_phone = ''5550000002'', T_is_active = True\<rparr>"

definition block_all_day :: WeeklyAvailability where
  "block_all_day =
     \<lparr>WA_tutor_id = 2, WA_day_of_week = 0,
      WA_start_time = mk_time 0 0 0, WA_end_time = mk_time 23 59 0\<rparr>"

definition tuesday_off :: TutorException where
  "tuesday_off =
     \<lparr>TE_tutor_id = 2, TE_date = monday + 1, TE_start_time = None, TE_end_time = None\<rparr>"

definition booking_1530 :: Booking where
  "booking_1530 =
     \<lparr>B_id = 1, B_tutor_id = 1, B_subject_id = Some 1,
      B_student_name = ''S'', B_student_phone = ''5550000003'',
      B_start_time = combine monday (mk_time 15 30 0),
      B_end_time = combine monday (mk_time 16 0 0),
      B_created_at = combine (monday - 7) (mk_time 12 0 0),
      B_is_canceled = False, B_canceled_at = None, B_cancel_reason = None\<rparr>"

definition booking_1630 :: Booking where
  "booking_1630 =
     \<lparr>B_id = 2, B_tutor_id = 1, B_subject_id = Some 1,
      B_student_name = ''S'', B_student_phone = ''5550000003'',
      B_start_time = combine monday (mk_time 16 30 0),
      B_end_time = combine monday (mk_time 17 0 0),
      B_created_at = combine (monday - 7) (mk_time 12 5 0),
      B_is_canceled = True,
      B_canceled_at = Some (combine (monday - 6) (mk_time 9 0 0)),
      B_cancel_reason = None\<rparr>"

definition example_db :: database where
  "example_db =
     \<lparr>subjects = [\<lparr>S_id = 1, S_name = ''IM1''\<rparr>, \<lparr>S_id = 2, S_name = ''IM2''\<rparr>],
      tutors = [tutor_a, tutor_b],
      tutor_subjects = [\<lparr>TS_tutor_id = 1, TS_subject_id = 1\<rparr>,
                        \<lparr>TS_tutor_id = 2, TS_subject_id = 1\<rparr>,
                        \<lparr>TS_tutor_id = 1, TS_subject_id = 2\<rparr>],
      weekly_availability = [block_15_17, block_all_day],
      tutor_exceptions = [tuesday_off],
      bookings = [booking_1530, booking_1630]\<rparr>"

text \<open>Requests for the example Monday, sent on the Saturday before at noon, with the
  default slot length: subject 2 at 16:30, subject 1 at 15:00.\<close>

definition default_config :: config where
  "default_config = \<lparr>BOOKING_SLOT_MINUTES = None\<rparr>"

definition saturday_noon :: environment where
  "saturday_noon =
     \<lparr>pacific_now = combine (monday - 2) (mk_time 12 0 0),
      utcnow = combine (monday - 2) (mk_time 20 0 0),
      random_draw = 0,
      storage_fault = False,
      strftime_long = (\<lambda>d. ''December 31, 2023'')\<rparr>"

definition form_1630 :: book_form where
  "form_1630 =
     \<lparr>F_student_name = ''Sam'', F_student_phone = ''555-000-0004'',
      F_subject_id = Parsed 2, F_date = Parsed monday, F_start_time = Parsed (mk_time 16 30 0)\<rparr>"

definition form_1500 :: book_form where
  "form_1500 =
     \<lparr>F_student_name = ''Sam'', F_student_phone = ''555-000-0004'',
      F_subject_id = Parsed 1, F_date = Parsed monday, F_start_time = Parsed (mk_time 15 0 0)\<rparr>"

text \<open>A second database for the same Monday. Tutors 1 and 2 are active and teach subject
  1; tutor 3 teaches it and is inactive; tutor 4 is active and teaches subject 2 only.
  Tutor 1 offers Mondays 15:00 to 16:00 and Tuesdays 10:00 to 11:00, is away on the
  Monday from 12:00 to 13:00, and is booked 15:00 to 15:30. Tutor 2 offers Mondays 15:30
  to 16:30, is away on the Monday from 16:00 to 16:30 and the whole Tuesday, and has a
  canceled booking 15:30 to 16:00. Tutor 3 offers Mondays 15:00 to 17:00, tutor 4
  Mondays 9:00 to 10:00.\<close>

definition tutor_c :: Tutor where
  "tutor_c = \<lparr>T_id = 3, T_name = ''C'', T_phone = ''5550000005'', T_is_active = False\<rparr>"

definition tutor_d :: Tutor where
  "tutor_d = \<lparr>T_id = 4, T_name = ''D'', T_phone = ''5550000006'', T_is_active = True\<rparr>"

definition school_db :: database where
  "school_db =
     \<lparr>subjects = [\<lparr>S_id = 1, S_name = ''IM1''\<rparr>, \<lparr>S_id = 2, S_name = ''IM2''\<rparr>],
      tutors = [tutor_a, tutor_b, tutor_c, tutor_d],
      tutor_subjects = [\<lparr>TS_tutor_id = 2, TS_subject_id = 1\<rparr>,
                        \<lparr>TS_tutor_id = 1, TS_subject_id = 1\<rparr>,
                        \<lparr>TS_tutor_id = 3, TS_subject_id = 1\<rparr>,
                        \<lparr>TS_tutor_id = 4, TS_subject_id = 2\<rparr>],
      weekly_availability =
        [\<lparr>WA_tutor_id = 1, WA_day_of_week = 0,
          WA_start_time = mk_time 15 0 0, WA_end_time = mk_time 16 0 0\<rparr>,
         \<lparr>WA_tutor_id = 1, WA_day_of_week = 1,
          WA_start_time = mk_time 10 0 0, WA_end_time = mk_time 11 0 0\<rparr>,
         \<lparr>WA_tutor_id = 2, WA_day_of_week = 0,
          WA_start_time = mk_time 15 30 0, WA_end_time = mk_time 16 30 0\<rparr>,
         \<lparr>WA_tutor_id = 3, WA_day_of_week = 0,
          WA_start_time = mk_time 15 0 0, WA_end_time = mk_time 17 0 0\<rparr>,
         \<lparr>WA_tutor_id = 4, WA_day_of_week = 0,
          WA_start_time = mk_time 9 0 0, WA_end_time = mk_time 10 0 0\<rparr>],
      tutor_exceptions =
        [\<lparr>TE_tutor_id = 2, TE_date = monday,
          TE_start_time = Some (mk_time 16 0 0), TE_end_time = Some (mk_time 16 30 0)\<rparr>,
         \<lparr>TE_tutor_id = 1, TE_date = monday,
          TE_start_time = Some (mk_time 12 0 0), TE_end_time = Some (mk_time 13 0 0)\<rparr>,
         \<lparr>TE_tutor_id = 2, TE_date = monday + 1,
          TE_start_time = None, TE_end_time = None\<rparr>],
      bookings =
        [\<lparr>B_id = 1, B_tutor_id = 1, B_subject_id = Some 1,
          B_student_name = ''S'', B_student_phone = ''5550000003'',
          B_start_time = combine monday (mk_time 15 0 0),
          B_end_time = combine monday (mk_time 15 30 0),
          B_created_at = combine (monday - 7) (mk_time 12 0 0),
          B_is_canceled = False, B_canceled_at = None, B_cancel_reason = None\<rparr>,
         \<lparr>B_id = 2, B_tutor_id = 2, B_subject_id = Some 1,
          B_student_name = ''S'', B_student_phone = ''5550000003'',
          B_start_time = combine monday (mk_time 15 30 0),
          B_end_time = combine monday (mk_time 16 0 0),
          B_created_at = combine (monday - 7) (mk_time 12 5 0),
          B_is_canceled = True,
          B_canceled_at = Some (combine (monday - 6) (mk_time 9 0 0)),
          B_cancel_reason = None\<rparr>]\<rparr>"

text \<open>Requests for subject 2 on the example Monday, at 15:00, 15:15 and 16:00.\<close>

definition form_2_at :: "time \<Rightarrow> book_form" where
  "form_2_at start_time =
     \<lparr>F_student_name = ''Kim'', F_student_phone = ''555-000-0007'',
      F_subject_id = Parsed 2, F_date = Parsed monday, F_start_time = Parsed start_time\<rparr>"

text \<open>The booking rows that these requests create for tutor 1, under a given key.\<close>

definition booking_new :: "int \<Rightarrow> time \<Rightarrow> time \<Rightarrow> Booking" where
  "booking_new key start_time end_time =
     \<lparr>B_id = key, B_tutor_id = 1, B_subject_id = Some 2,
      B_student_name = ''Kim'', B_student_phone = ''5550000007'',
      B_start_time = combine monday start_time,
      B_end_time = combine monday end_time,
      B_created_at = combine (monday - 2) (mk_time 20 0 0),
      B_is_canceled = False, B_canceled_at = None, B_cancel_reason = None\<rparr>"


section \<open>Slot generation\<close>

lemma slot_seq_Suc_front:
  "slot_seq c step (Suc n) = (c, c + step) # slot_seq (c + step) step n"
  unfolding slot_seq_def
  by (simp add: upt_conv_Cons map_Suc_upt[symmetric] algebra_simps del: upt_Suc)

lemma length_slot_seq: "length (slot_seq c step n) = n"
  by (simp add: slot_seq_def)

lemma nth_slot_seq:
  "k < n \<Longrightarrow> slot_seq c step n ! k = (c + int k * step, c + int k * step + step)"
  by (simp add: slot_seq_def)

lemma le_div_iff_mult_le_int:
  fixes a b m :: int
  assumes "0 < b"
  shows "m \<le> a div b \<longleftrightarrow> m * b \<le> a"
proof
  assume "m \<le> a div b"
  then have "m * b \<le> (a div b) * b" using assms by (simp add: mult_right_mono)
  also have "\<dots> \<le> a" using assms
    by (metis mult.commute pos_mod_sign add_increasing2 mult_div_mod_eq order_refl)
  finally show "m * b \<le> a" .
next
  assume "m * b \<le> a"
  then have "(m * b) div b \<le> a div b" using assms by (rule zdiv_mono1)
  then show "m \<le> a div b" using assms by simp
qed

text \<open>With a positive step the loop returns, and what it returns is the closed form.\<close>

lemma generate_slots_loop_returns:
  assumes "0 < step"
  shows "generate_slots_loop c step e acc =
           Some (acc @ slot_seq c step (nat ((e - c) div step)))"
proof (induction "nat ((e - c) div step)" arbitrary: c acc)
  case 0
  then have "\<not> 0 < (e - c) div step" by simp
  then have "\<not> step \<le> e - c" using assms by (simp add: pos_imp_zdiv_pos_iff)
  then have "\<not> c + step \<le> e" by simp
  with 0 show ?case
    by (subst generate_slots_loop.simps) (simp add: slot_seq_def)
next
  case (Suc n)
  then have pos: "0 < (e - c) div step" by simp
  then have "step \<le> e - c" using assms by (simp add: pos_imp_zdiv_pos_iff)
  then have le: "c + step \<le> e" by simp
  have "(e - (c + step) + step) div step = (e - (c + step)) div step + 1"
    using assms by (intro div_add_self2) simp
  then have "(e - (c + step)) div step = (e - c) div step - 1" by simp
  then have n: "n = nat ((e - (c + step)) div step)" using Suc(2) by simp
  have "generate_slots_loop (c + step) step e (acc @ [(c, c + step)])
          = Some ((acc @ [(c, c + step)]) @ slot_seq (c + step) step n)"
    using Suc(1)[OF n] n by simp
  moreover have "nat ((e - c) div step) = Suc n" using Suc(2) by simp
  ultimately show ?case using le
    by (subst generate_slots_loop.simps) (simp add: slot_seq_Suc_front)
qed

text \<open>With a step of zero or less and room for one slot the loop never returns.\<close>

lemma generate_slots_loop_no_result:
  assumes "generate_slots_loop c step e acc = Some y"
  shows "\<not> (step \<le> 0 \<and> c + step \<le> e)"
proof (rule generate_slots_loop.raw_induct
    [where P = "\<lambda>c step e acc y. \<not> (step \<le> 0 \<and> c + step \<le> e)", OF _ assms])
  fix f :: "int \<Rightarrow> int \<Rightarrow> int \<Rightarrow> (int \<times> int) list \<Rightarrow> (int \<times> int) list option"
  fix c step e acc y
  assume IH: "\<And>c step e acc y. f c step e acc = Some y \<Longrightarrow> \<not> (step \<le> 0 \<and> c + step \<le> e)"
    and body: "(if c + step \<le> e then f (c + step) step e (acc @ [(c, c + step)])
                else Some acc) = Some y"
  show "\<not> (step \<le> 0 \<and> c + step \<le> e)"
  proof (cases "c + step \<le> e")
    case True
    with body have "f (c + step) step e (acc @ [(c, c + step)]) = Some y" by simp
    from IH[OF this] True show ?thesis by auto
  next
    case False
    then show ?thesis by simp
  qed
qed

lemma generate_slots_loop_diverges:
  "step \<le> 0 \<Longrightarrow> c + step \<le> e \<Longrightarrow> generate_slots_loop c step e acc = None"
  using generate_slots_loop_no_result[of c step e acc]
  by (cases "generate_slots_loop c step e acc") auto

lemma slot_count_iff:
  assumes "0 < step"
  shows "k < nat ((e - c) div step) \<longleftrightarrow> c + (int k + 1) * step \<le> e"
proof -
  have "k < nat ((e - c) div step) \<longleftrightarrow> int k + 1 \<le> (e - c) div step" by linarith
  also have "\<dots> \<longleftrightarrow> (int k + 1) * step \<le> e - c"
    using assms by (rule le_div_iff_mult_le_int)
  also have "\<dots> \<longleftrightarrow> c + (int k + 1) * step \<le> e" by linarith
  finally show ?thesis .
qed

lemma sorted_slot_seq:
  assumes "0 < step"
  shows "sorted_wrt (<) (map fst (slot_seq c step n))"
proof -
  have "sorted_wrt (\<lambda>i j. c + int i * step < c + int j * step) [0..<n]"
    using assms by (simp add: sorted_wrt_iff_nth_less)
  then show ?thesis
    by (simp add: slot_seq_def sorted_wrt_map)
qed

lemma generate_slots_returns:
  assumes "1 \<le> mins"
  shows "generate_slots block d mins =
           Some (slot_seq (combine d (WA_start_time block)) (timedelta_minutes mins)
                   (nat ((combine d (WA_end_time block) - combine d (WA_start_time block))
                          div timedelta_minutes mins)))"
proof -
  have "0 < timedelta_minutes mins" using assms by (simp add: timedelta_minutes_def)
  from generate_slots_loop_returns[OF this, of _ _ "[]"] show ?thesis
    by (simp add: generate_slots_def Let_def)
qed

lemma generate_slots_diverges:
  assumes "mins \<le> 0" and "WA_start_time block \<le> WA_end_time block"
  shows "generate_slots block d mins = None"
proof -
  have "timedelta_minutes mins \<le> 0" using assms(1) by (simp add: timedelta_minutes_def)
  moreover from this assms(2)
  have "combine d (WA_start_time block) + timedelta_minutes mins \<le> combine d (WA_end_time block)"
    by (simp add: combine_def)
  ultimately show ?thesis
    by (simp add: generate_slots_def Let_def generate_slots_loop_diverges)
qed

text \<open>
  C3 (as amended: for a slot length of at least one minute). For every availability
  block, every date and every slot length of one minute or more, \<open>generate_slots\<close>
  returns; the slot with index \<open>k\<close> exists exactly when
  \<open>start + (k + 1) * step \<le> end\<close>, it is \<open>(start + k * step, start + (k + 1) * step)\<close>,
  the starts increase strictly, every slot has the full length and ends no later than
  the block, and no slot is returned when the block is shorter than one slot.
\<close>

theorem generate_slots_ordered_untruncated:
  assumes "1 \<le> mins"
  shows "\<exists>slots. generate_slots block d mins = Some slots
      \<and> (\<forall>k. k < length slots \<longleftrightarrow>
             combine d (WA_start_time block) + (int k + 1) * timedelta_minutes mins
               \<le> combine d (WA_end_time block))
      \<and> (\<forall>k. k < length slots \<longrightarrow>
             slots ! k =
               (combine d (WA_start_time block) + int k * timedelta_minutes mins,
                combine d (WA_start_time block) + int k * timedelta_minutes mins
                  + timedelta_minutes mins))
      \<and> sorted_wrt (<) (map fst slots)
      \<and> (\<forall>slot \<in> set slots. snd slot = fst slot + timedelta_minutes mins
             \<and> snd slot \<le> combine d (WA_end_time block))
      \<and> (combine d (WA_end_time block) - combine d (WA_start_time block)
            < timedelta_minutes mins \<longrightarrow> slots = [])"
proof -
  define s where "s = combine d (WA_start_time block)"
  define e where "e = combine d (WA_end_time block)"
  define step where "step = timedelta_minutes mins"
  define n where "n = nat ((e - s) div step)"
  have pos: "0 < step" using assms by (simp add: step_def timedelta_minutes_def)
  have ret: "generate_slots block d mins = Some (slot_seq s step n)"
    using generate_slots_returns[OF assms] by (simp add: s_def e_def step_def n_def)
  have cnt: "\<And>k. k < n \<longleftrightarrow> s + (int k + 1) * step \<le> e"
    unfolding n_def using pos by (rule slot_count_iff)
  have nth: "\<And>k. k < n \<Longrightarrow> slot_seq s step n ! k = (s + int k * step, s + int k * step + step)"
    by (rule nth_slot_seq)
  have srt: "sorted_wrt (<) (map fst (slot_seq s step n))"
    using pos by (rule sorted_slot_seq)
  have ends: "snd slot = fst slot + step \<and> snd slot \<le> e"
    if "slot \<in> set (slot_seq s step n)" for slot
  proof -
    from that obtain k where k: "k < n"
      and slot: "slot = (s + int k * step, s + int k * step + step)"
      by (auto simp: slot_seq_def)
    from k cnt have "s + (int k + 1) * step \<le> e" by simp
    then show ?thesis using slot by (simp add: algebra_simps)
  qed
  have short: "slot_seq s step n = []" if "e - s < step"
  proof -
    have "\<not> 0 < n" using cnt[of 0] that by simp
    then show ?thesis by (simp add: slot_seq_def)
  qed
  show ?thesis
    unfolding s_def[symmetric] e_def[symmetric] step_def[symmetric]
  proof (intro exI[of _ "slot_seq s step n"] conjI)
    show "generate_slots block d mins = Some (slot_seq s step n)" by (rule ret)
    show "\<forall>k. k < length (slot_seq s step n) \<longleftrightarrow> s + (int k + 1) * step \<le> e"
      using cnt by (simp only: length_slot_seq) simp
    show "\<forall>k. k < length (slot_seq s step n) \<longrightarrow>
            slot_seq s step n ! k = (s + int k * step, s + int k * step + step)"
      using nth by (simp only: length_slot_seq) blast
    show "sorted_wrt (<) (map fst (slot_seq s step n))" by (rule srt)
    show "\<forall>slot \<in> set (slot_seq s step n). snd slot = fst slot + step \<and> snd slot \<le> e"
      using ends by blast
    show "e - s < step \<longrightarrow> slot_seq s step n = []"
      using short by blast
  qed
qed

text \<open>The block 15:00 to 17:00 on a Monday, cut into slots of 30 minutes: four slots,
  the last ending at 17:00.\<close>

theorem generate_slots_ordered_untruncated_witness:
  "(1::int) \<le> 30
   \<and> generate_slots block_15_17 monday 30 =
       Some [(combine monday (mk_time 15 0 0), combine monday (mk_time 15 30 0)),
             (combine monday (mk_time 15 30 0), combine monday (mk_time 16 0 0)),
             (combine monday (mk_time 16 0 0), combine monday (mk_time 16 30 0)),
             (combine monday (mk_time 16 30 0), combine monday (mk_time 17 0 0))]
   \<and> (\<exists>slots. generate_slots block_15_17 monday 30 = Some slots
        \<and> sorted_wrt (<) (map fst slots)
        \<and> list_all (\<lambda>slot. snd slot \<le> combine monday (mk_time 17 0 0)) slots)"
proof -
  have h: "(1::int) \<le> 30" by simp
  have ev: "generate_slots block_15_17 monday 30 =
       Some [(combine monday (mk_time 15 0 0), combine monday (mk_time 15 30 0)),
             (combine monday (mk_time 15 30 0), combine monday (mk_time 16 0 0)),
             (combine monday (mk_time 16 0 0), combine monday (mk_time 16 30 0)),
             (combine monday (mk_time 16 30 0), combine monday (mk_time 17 0 0))]"
    by (simp add: generate_slots_def generate_slots_loop.simps block_15_17_def monday_def
        combine_def DAY_def mk_time_def timedelta_minutes_def Let_def)
  from generate_slots_ordered_untruncated[OF h, of block_15_17 monday]
  obtain slots where "generate_slots block_15_17 monday 30 = Some slots"
    and "sorted_wrt (<) (map fst slots)"
    and "\<forall>slot \<in> set slots. snd slot \<le> combine monday (WA_end_time block_15_17)"
    by blast
  then have "\<exists>slots. generate_slots block_15_17 monday 30 = Some slots
        \<and> sorted_wrt (<) (map fst slots)
        \<and> list_all (\<lambda>slot. snd slot \<le> combine monday (mk_time 17 0 0)) slots"
    by (auto simp: list_all_iff block_15_17_def)
  with h ev show ?thesis by blast
qed

text \<open>C3 as stated, for every slot length, fails: with a slot length of zero the loop
  of \<open>generate_slots\<close> never moves its cursor, and the call does not return.\<close>

theorem generate_slots_zero_length_counterexample:
  "WA_start_time block_15_17 < WA_end_time block_15_17
   \<and> generate_slots block_15_17 monday 0 = None"
proof -
  have "WA_start_time block_15_17 < WA_end_time block_15_17"
    by (simp add: block_15_17_def mk_time_def)
  then show ?thesis
    by (simp add: generate_slots_diverges)
qed

text \<open>
  C10. For every availability block, every date and every slot length of at least one
  minute, \<open>generate_slots\<close> returns, and the number of slots is the floor of the
  block's duration divided by the slot length (both durations in microseconds, so the
  quotient is the one of the durations); a block that ends before it starts has no
  slots. When the block is not empty, a call that returns has a positive slot length.
\<close>

theorem generate_slots_terminates_count:
  "(1 \<le> mins \<longrightarrow>
      (\<exists>slots. generate_slots block d mins = Some slots
         \<and> length slots =
             nat ((WA_end_time block - WA_start_time block) div timedelta_minutes mins)
         \<and> (WA_start_time block \<le> WA_end_time block \<longrightarrow>
              int (length slots) =
                \<lfloor>real_of_int (WA_end_time block - WA_start_time block)
                   / real_of_int (timedelta_minutes mins)\<rfloor>)))
   \<and> (WA_start_time block < WA_end_time block
        \<and> generate_slots block d mins \<noteq> None \<longrightarrow> 1 \<le> mins)"
proof (intro conjI impI)
  assume m: "1 \<le> mins"
  define dur where "dur = WA_end_time block - WA_start_time block"
  define step where "step = timedelta_minutes mins"
  have pos: "0 < step" using m by (simp add: step_def timedelta_minutes_def)
  have diff: "combine d (WA_end_time block) - combine d (WA_start_time block) = dur"
    by (simp add: combine_def dur_def)
  have ret: "generate_slots block d mins =
      Some (slot_seq (combine d (WA_start_time block)) step (nat (dur div step)))"
    using generate_slots_returns[OF m, of block d] by (simp add: diff step_def)
  have fl: "\<lfloor>real_of_int dur / real_of_int step\<rfloor> = dur div step"
    by (rule floor_divide_of_int_eq)
  have nonneg: "0 \<le> dur div step" if "WA_start_time block \<le> WA_end_time block"
    using that pos by (simp add: dur_def pos_imp_zdiv_nonneg_iff)
  show "\<exists>slots. generate_slots block d mins = Some slots
         \<and> length slots =
             nat ((WA_end_time block - WA_start_time block) div timedelta_minutes mins)
         \<and> (WA_start_time block \<le> WA_end_time block \<longrightarrow>
              int (length slots) =
                \<lfloor>real_of_int (WA_end_time block - WA_start_time block)
                   / real_of_int (timedelta_minutes mins)\<rfloor>)"
    unfolding dur_def[symmetric] step_def[symmetric]
    using ret fl nonneg by (simp add: length_slot_seq)
next
  assume "WA_start_time block < WA_end_time block \<and> generate_slots block d mins \<noteq> None"
  then show "1 \<le> mins"
    using generate_slots_diverges[of mins block d] by force
qed

theorem generate_slots_terminates_count_witness:
  "(1::int) \<le> 30
   \<and> WA_start_time block_15_17 \<le> WA_end_time block_15_17
   \<and> (\<exists>slots. generate_slots block_15_17 monday 30 = Some slots \<and> length slots = 4)
   \<and> \<lfloor>real_of_int (WA_end_time block_15_17 - WA_start_time block_15_17)
        / real_of_int (timedelta_minutes 30)\<rfloor> = 4
   \<and> generate_slots block_15_17 monday 30 \<noteq> None"
proof -
  have h: "(1::int) \<le> 30" by simp
  have le: "WA_start_time block_15_17 \<le> WA_end_time block_15_17"
    by (simp add: block_15_17_def mk_time_def)
  have q: "(WA_end_time block_15_17 - WA_start_time block_15_17) div timedelta_minutes 30 = 4"
    by (simp add: block_15_17_def mk_time_def timedelta_minutes_def)
  from generate_slots_terminates_count[of 30 block_15_17 monday] h le
  obtain slots where s: "generate_slots block_15_17 monday 30 = Some slots"
    and len: "length slots =
      nat ((WA_end_time block_15_17 - WA_start_time block_15_17) div timedelta_minutes 30)"
    and fl: "int (length slots) =
      \<lfloor>real_of_int (WA_end_time block_15_17 - WA_start_time block_15_17)
         / real_of_int (timedelta_minutes 30)\<rfloor>"
    by blast
  from len q have l4: "length slots = 4" by simp
  with fl have "\<lfloor>real_of_int (WA_end_time block_15_17 - WA_start_time block_15_17)
         / real_of_int (timedelta_minutes 30)\<rfloor> = 4" by simp
  with h le s l4 show ?thesis by auto
qed


section \<open>The availability check\<close>

lemma exception_blocks_iff:
  "exception_blocks xs start_dt end_dt \<longleftrightarrow> (\<exists>x \<in> set xs. overlaps x start_dt end_dt)"
  by (induction xs) auto

lemma booking_blocks_iff:
  "booking_blocks bs start_dt end_dt \<longleftrightarrow>
     (\<exists>b \<in> set bs. \<not> B_is_canceled b \<and> B_start_time b < end_dt \<and> B_end_time b > start_dt)"
  by (induction bs) auto

lemma overlaps_other_date:
  "TE_date x \<noteq> date_of start_dt \<Longrightarrow> \<not> overlaps x start_dt end_dt"
  by (simp add: overlaps_def)

lemma overlaps_full_day:
  "is_full_day x \<Longrightarrow> TE_date x = date_of start_dt \<Longrightarrow> overlaps x start_dt end_dt"
  by (simp add: overlaps_def)

lemma exception_gate_iff:
  "exception_gate db tutor start_dt end_dt \<longleftrightarrow>
     (\<forall>x \<in> set (Tutor_exceptions db tutor).
        TE_date x = date_of start_dt \<longrightarrow> \<not> overlaps x start_dt end_dt)"
  unfolding exception_gate_def exception_blocks_iff
  using overlaps_other_date by blast

lemma block_gate_iff:
  "block_gate db tutor start_dt end_dt \<longleftrightarrow>
     (\<exists>block \<in> set (Tutor_weekly_availability db tutor).
        WA_day_of_week block = weekday (date_of start_dt)
        \<and> WA_start_time block \<le> time_of start_dt \<and> WA_end_time block \<ge> time_of end_dt)"
  by (auto simp: block_gate_def availability_for_day_def list_ex_iff)

lemma booking_gate_iff:
  "booking_gate db tutor start_dt end_dt \<longleftrightarrow>
     (\<forall>b \<in> set (Tutor_bookings db tutor).
        \<not> B_is_canceled b \<longrightarrow> \<not> (B_start_time b < end_dt \<and> B_end_time b > start_dt))"
  unfolding booking_gate_def booking_blocks_iff by blast

lemma is_available_for_slot_gates:
  "is_available_for_slot db tutor start_dt end_dt \<longleftrightarrow>
     exception_gate db tutor start_dt end_dt
     \<and> block_gate db tutor start_dt end_dt
     \<and> booking_gate db tutor start_dt end_dt"
  by (simp add: is_available_for_slot_def exception_gate_def block_gate_def
      booking_gate_def Let_def)

lemma overlaps_iff:
  "overlaps x start_dt end_dt \<longleftrightarrow>
     TE_date x = date_of start_dt
     \<and> (TE_start_time x = None \<or> TE_end_time x = None
        \<or> (\<exists>st en. TE_start_time x = Some st \<and> TE_end_time x = Some en
              \<and> start_dt < combine (TE_date x) en \<and> end_dt > combine (TE_date x) st))"
  by (auto simp: overlaps_def is_full_day_def Let_def split: option.splits)

lemma exception_gate_rows:
  "exception_gate db tutor start_dt end_dt \<longleftrightarrow>
     \<not> (\<exists>x \<in> set (tutor_exceptions db).
           TE_tutor_id x = T_id tutor \<and> TE_date x = date_of start_dt
           \<and> (TE_start_time x = None \<or> TE_end_time x = None
              \<or> (\<exists>st en. TE_start_time x = Some st \<and> TE_end_time x = Some en
                    \<and> start_dt < combine (TE_date x) en
                    \<and> end_dt > combine (TE_date x) st)))"
  unfolding exception_gate_def exception_blocks_iff overlaps_iff Tutor_exceptions_def
  by auto

lemma block_gate_rows:
  "block_gate db tutor start_dt end_dt \<longleftrightarrow>
     (\<exists>block \<in> set (weekly_availability db).
        WA_tutor_id block = T_id tutor
        \<and> WA_day_of_week block = weekday (date_of start_dt)
        \<and> WA_start_time block \<le> time_of start_dt \<and> WA_end_time block \<ge> time_of end_dt)"
  unfolding block_gate_iff Tutor_weekly_availability_def by auto

lemma booking_gate_rows:
  "booking_gate db tutor start_dt end_dt \<longleftrightarrow>
     \<not> (\<exists>b \<in> set (bookings db).
           B_tutor_id b = T_id tutor \<and> \<not> B_is_canceled b
           \<and> B_start_time b < end_dt \<and> B_end_time b > start_dt)"
  unfolding booking_gate_def booking_blocks_iff Tutor_bookings_def by auto

lemma fst_evaluate_gates: "fst (evaluate_gates passes gs) \<longleftrightarrow> (\<forall>g \<in> set gs. passes g)"
  by (induction gs) (auto split: prod.splits)

lemma snd_evaluate_gates_prefix:
  "snd (evaluate_gates passes gs) = takeWhile passes gs @ take 1 (dropWhile passes gs)"
  by (induction gs) (auto split: prod.splits)

text \<open>
  C2. \<open>is_available_for_slot\<close> returns true exactly when all three of the following
  hold. (1) No exception row of the tutor on the date of \<open>start\<close> overlaps the interval:
  none that lacks a time bound, and none whose bounds, combined with its date, satisfy
  \<open>start < exception end\<close> and \<open>end > exception start\<close>. (2) Some weekly block of the
  tutor on the weekday of \<open>start\<close> has \<open>block.start \<le> start.time\<close> and
  \<open>block.end \<ge> end.time\<close>. (3) No non-canceled booking row of the tutor has
  \<open>booking.start < end\<close> and \<open>booking.end > start\<close>. Each of the three tests of the method
  is one of these conditions, and evaluating the three tests in any order, stopping at
  the first that fails, gives the method's result; what the order changes is which
  tests are evaluated, those up to and including the first that fails.
\<close>

theorem is_available_for_slot_three_gates:
  "let no_exception =
         (\<not> (\<exists>x \<in> set (tutor_exceptions db).
                TE_tutor_id x = T_id tutor \<and> TE_date x = date_of start_dt
                \<and> (TE_start_time x = None \<or> TE_end_time x = None
                   \<or> (\<exists>st en. TE_start_time x = Some st \<and> TE_end_time x = Some en
                         \<and> start_dt < combine (TE_date x) en
                         \<and> end_dt > combine (TE_date x) st))));
       inside_block =
         (\<exists>block \<in> set (weekly_availability db).
            WA_tutor_id block = T_id tutor
            \<and> WA_day_of_week block = weekday (date_of start_dt)
            \<and> WA_start_time block \<le> time_of start_dt
            \<and> WA_end_time block \<ge> time_of end_dt);
       no_booking =
         (\<not> (\<exists>b \<in> set (bookings db).
                B_tutor_id b = T_id tutor \<and> \<not> B_is_canceled b
                \<and> B_start_time b < end_dt \<and> B_end_time b > start_dt));
       passes = gate_passes db tutor start_dt end_dt
   in (is_available_for_slot db tutor start_dt end_dt
         \<longleftrightarrow> no_exception \<and> inside_block \<and> no_booking)
      \<and> (passes Exception_gate \<longleftrightarrow> no_exception)
      \<and> (passes Block_gate \<longleftrightarrow> inside_block)
      \<and> (passes Booking_gate \<longleftrightarrow> no_booking)
      \<and> (\<forall>order. set order = {Exception_gate, Block_gate, Booking_gate} \<longrightarrow>
            fst (evaluate_gates passes order)
              = is_available_for_slot db tutor start_dt end_dt)
      \<and> (\<forall>order. snd (evaluate_gates passes order)
              = takeWhile passes order @ take 1 (dropWhile passes order))"
proof -
  let ?c1 = "\<not> (\<exists>x \<in> set (tutor_exceptions db).
                TE_tutor_id x = T_id tutor \<and> TE_date x = date_of start_dt
                \<and> (TE_start_time x = None \<or> TE_end_time x = None
                   \<or> (\<exists>st en. TE_start_time x = Some st \<and> TE_end_time x = Some en
                         \<and> start_dt < combine (TE_date x) en
                         \<and> end_dt > combine (TE_date x) st)))"
  let ?c2 = "\<exists>block \<in> set (weekly_availability db).
            WA_tutor_id block = T_id tutor
            \<and> WA_day_of_week block = weekday (date_of start_dt)
            \<and> WA_start_time block \<le> time_of start_dt
            \<and> WA_end_time block \<ge> time_of end_dt"
  let ?c3 = "\<not> (\<exists>b \<in> set (bookings db).
                B_tutor_id b = T_id tutor \<and> \<not> B_is_canceled b
                \<and> B_start_time b < end_dt \<and> B_end_time b > start_dt)"
  let ?passes = "gate_passes db tutor start_dt end_dt"
  have g1: "?passes Exception_gate \<longleftrightarrow> ?c1"
    by (simp only: gate_passes.simps exception_gate_rows)
  have g2: "?passes Block_gate \<longleftrightarrow> ?c2"
    by (simp only: gate_passes.simps block_gate_rows)
  have g3: "?passes Booking_gate \<longleftrightarrow> ?c3"
    by (simp only: gate_passes.simps booking_gate_rows)
  have all: "is_available_for_slot db tutor start_dt end_dt \<longleftrightarrow> ?c1 \<and> ?c2 \<and> ?c3"
    by (simp only: is_available_for_slot_gates exception_gate_rows block_gate_rows
        booking_gate_rows)
  have order: "\<forall>order. set order = {Exception_gate, Block_gate, Booking_gate} \<longrightarrow>
      fst (evaluate_gates ?passes order) = is_available_for_slot db tutor start_dt end_dt"
    by (simp add: fst_evaluate_gates is_available_for_slot_gates)
  have evaluated: "\<forall>order. snd (evaluate_gates ?passes order)
      = takeWhile ?passes order @ take 1 (dropWhile ?passes order)"
    by (simp add: snd_evaluate_gates_prefix)
  show ?thesis
    unfolding Let_def
    by (intro conjI) (rule all, rule g1, rule g2, rule g3, rule order, rule evaluated)
qed

lemma example_exceptions_a: "Tutor_exceptions example_db tutor_a = []"
  by (simp add: Tutor_exceptions_def example_db_def tutor_a_def tuesday_off_def)

lemma example_exceptions_b: "Tutor_exceptions example_db tutor_b = [tuesday_off]"
  by (simp add: Tutor_exceptions_def example_db_def tutor_b_def tuesday_off_def)

lemma example_availability_a: "Tutor_weekly_availability example_db tutor_a = [block_15_17]"
  by (simp add: Tutor_weekly_availability_def example_db_def tutor_a_def block_15_17_def
      block_all_day_def)

lemma example_availability_b: "Tutor_weekly_availability example_db tutor_b = [block_all_day]"
  by (simp add: Tutor_weekly_availability_def example_db_def tutor_b_def block_15_17_def
      block_all_day_def)

lemma example_bookings_a: "Tutor_bookings example_db tutor_a = [booking_1530, booking_1630]"
  by (simp add: Tutor_bookings_def example_db_def tutor_a_def booking_1530_def
      booking_1630_def)

lemma example_bookings_b: "Tutor_bookings example_db tutor_b = []"
  by (simp add: Tutor_bookings_def example_db_def tutor_b_def booking_1530_def
      booking_1630_def)

lemmas calendar_defs =
  combine_def date_of_def time_of_def weekday_def mk_time_def timedelta_minutes_def
  timedelta_days_def DAY_def monday_def

lemma date_of_combine: "0 \<le> t \<Longrightarrow> t < DAY \<Longrightarrow> date_of (combine d t) = d"
  by (simp add: date_of_def combine_def DAY_def)

lemma time_of_combine: "0 \<le> t \<Longrightarrow> t < DAY \<Longrightarrow> time_of (combine d t) = t"
  by (simp add: time_of_def combine_def DAY_def)

lemmas school_defs = school_db_def tutor_a_def tutor_b_def tutor_c_def tutor_d_def

text \<open>The second database on the Monday. Tutor 2 is free 15:30 to 16:00: the absence
  from 16:00 on the same date does not reach into the interval, and the booking of the
  slot is canceled. Tutor 2 is not free 16:00 to 16:30, where only the absence stands
  against it; tutor 1 is not free 15:00 to 15:30, where only the booking does, and not
  free 16:00 to 16:30, where only the block does. At 16:00 the order of the method
  stops after the first test, another order evaluates all three, with the same result.\<close>

theorem is_available_for_slot_three_gates_witness:
  "is_available_for_slot school_db tutor_b
     (combine monday (mk_time 15 30 0)) (combine monday (mk_time 16 0 0))
   \<and> \<not> is_available_for_slot school_db tutor_b
     (combine monday (mk_time 16 0 0)) (combine monday (mk_time 16 30 0))
   \<and> \<not> is_available_for_slot school_db tutor_a
     (combine monday (mk_time 15 0 0)) (combine monday (mk_time 15 30 0))
   \<and> \<not> is_available_for_slot school_db tutor_a
     (combine monday (mk_time 16 0 0)) (combine monday (mk_time 16 30 0))
   \<and> is_available_for_slot school_db tutor_a
     (combine monday (mk_time 15 30 0)) (combine monday (mk_time 16 0 0))
   \<and> set [Block_gate, Booking_gate, Exception_gate]
       = {Exception_gate, Block_gate, Booking_gate}
   \<and> evaluate_gates (gate_passes school_db tutor_b
         (combine monday (mk_time 16 0 0)) (combine monday (mk_time 16 30 0)))
       [Exception_gate, Block_gate, Booking_gate] = (False, [Exception_gate])
   \<and> evaluate_gates (gate_passes school_db tutor_b
         (combine monday (mk_time 16 0 0)) (combine monday (mk_time 16 30 0)))
       [Block_gate, Booking_gate, Exception_gate]
       = (False, [Block_gate, Booking_gate, Exception_gate])"
proof -
  note w = is_available_for_slot_three_gates[unfolded Let_def]
  have 1: "is_available_for_slot school_db tutor_b
     (combine monday (mk_time 15 30 0)) (combine monday (mk_time 16 0 0))"
    using w[of school_db tutor_b "combine monday (mk_time 15 30 0)"
        "combine monday (mk_time 16 0 0)"]
    by (simp add: school_defs calendar_defs)
  have 2: "\<not> is_available_for_slot school_db tutor_b
     (combine monday (mk_time 16 0 0)) (combine monday (mk_time 16 30 0))"
    and g2: "\<not> gate_passes school_db tutor_b (combine monday (mk_time 16 0 0))
                (combine monday (mk_time 16 30 0)) Exception_gate"
      "gate_passes school_db tutor_b (combine monday (mk_time 16 0 0))
                (combine monday (mk_time 16 30 0)) Block_gate"
      "gate_passes school_db tutor_b (combine monday (mk_time 16 0 0))
                (combine monday (mk_time 16 30 0)) Booking_gate"
    using w[of school_db tutor_b "combine monday (mk_time 16 0 0)"
        "combine monday (mk_time 16 30 0)"]
    by (simp_all add: school_defs calendar_defs)
  have 3: "\<not> is_available_for_slot school_db tutor_a
     (combine monday (mk_time 15 0 0)) (combine monday (mk_time 15 30 0))"
    using w[of school_db tutor_a "combine monday (mk_time 15 0 0)"
        "combine monday (mk_time 15 30 0)"]
    by (simp add: school_defs calendar_defs)
  have 4: "\<not> is_available_for_slot school_db tutor_a
     (combine monday (mk_time 16 0 0)) (combine monday (mk_time 16 30 0))"
    using w[of school_db tutor_a "combine monday (mk_time 16 0 0)"
        "combine monday (mk_time 16 30 0)"]
    by (simp add: school_defs calendar_defs)
  have 5: "is_available_for_slot school_db tutor_a
     (combine monday (mk_time 15 30 0)) (combine monday (mk_time 16 0 0))"
    using w[of school_db tutor_a "combine monday (mk_time 15 30 0)"
        "combine monday (mk_time 16 0 0)"]
    by (simp add: school_defs calendar_defs)
  have 6: "set [Block_gate, Booking_gate, Exception_gate]
       = {Exception_gate, Block_gate, Booking_gate}"
    by auto
  have 7: "evaluate_gates (gate_passes school_db tutor_b
         (combine monday (mk_time 16 0 0)) (combine monday (mk_time 16 30 0)))
       [Exception_gate, Block_gate, Booking_gate] = (False, [Exception_gate])"
    "evaluate_gates (gate_passes school_db tutor_b
         (combine monday (mk_time 16 0 0)) (combine monday (mk_time 16 30 0)))
       [Block_gate, Booking_gate, Exception_gate]
       = (False, [Block_gate, Booking_gate, Exception_gate])"
    using g2 by simp_all
  from 1 2 3 4 5 6 7 show ?thesis by blast
qed

text \<open>
  C4 (as amended: the exception is on the date of the interval's start). For every
  tutor and every interval, if the tutor has a full-day exception on the calendar date
  of the interval's start, then \<open>is_available_for_slot\<close> returns false, whatever the
  times of day of the interval are.
\<close>

theorem full_day_exception_blocks_start_date:
  assumes "x \<in> set (Tutor_exceptions db tutor)"
    and "is_full_day x"
    and "TE_date x = date_of start_dt"
  shows "\<not> is_available_for_slot db tutor start_dt end_dt"
proof -
  from assms(2,3) have "overlaps x start_dt end_dt" by (rule overlaps_full_day)
  with assms(1) have "exception_blocks (Tutor_exceptions db tutor) start_dt end_dt"
    unfolding exception_blocks_iff by blast
  then show ?thesis by (simp add: is_available_for_slot_def)
qed

text \<open>Tutor 2 has blocked Tuesday: no slot that starts on that Tuesday is available,
  here 10:00 to 10:30.\<close>

theorem full_day_exception_blocks_start_date_witness:
  "tuesday_off \<in> set (Tutor_exceptions example_db tutor_b)
   \<and> is_full_day tuesday_off
   \<and> TE_date tuesday_off = date_of (combine (monday + 1) (mk_time 10 0 0))
   \<and> \<not> is_available_for_slot example_db tutor_b
         (combine (monday + 1) (mk_time 10 0 0)) (combine (monday + 1) (mk_time 10 30 0))"
proof -
  have a: "tuesday_off \<in> set (Tutor_exceptions example_db tutor_b)"
    by (simp add: example_exceptions_b)
  have b: "is_full_day tuesday_off" by (simp add: is_full_day_def tuesday_off_def)
  have c: "TE_date tuesday_off = date_of (combine (monday + 1) (mk_time 10 0 0))"
    by (simp add: tuesday_off_def calendar_defs)
  from full_day_exception_blocks_start_date[OF a b c] a b c show ?thesis by blast
qed

text \<open>C4 as stated, for any date that the interval intersects, fails: the interval from
  Monday 23:45 to Tuesday 00:15 intersects the Tuesday that tutor 2 has blocked for the
  whole day, \<open>overlaps\<close> compares the exception's date with the date of the start
  only, and the tutor is reported available.\<close>

theorem full_day_exception_past_midnight_counterexample:
  "tuesday_off \<in> set (Tutor_exceptions example_db tutor_b)
   \<and> is_full_day tuesday_off
   \<and> combine monday (mk_time 23 45 0) < combine (monday + 1) (mk_time 0 15 0)
   \<and> combine (TE_date tuesday_off) 0 < combine (monday + 1) (mk_time 0 15 0)
   \<and> combine monday (mk_time 23 45 0) < combine (TE_date tuesday_off + 1) 0
   \<and> combine monday (mk_time 23 45 0) + timedelta_minutes 30
       = combine (monday + 1) (mk_time 0 15 0)
   \<and> is_available_for_slot example_db tutor_b
       (combine monday (mk_time 23 45 0)) (combine (monday + 1) (mk_time 0 15 0))"
proof -
  have ov: "\<not> overlaps tuesday_off (combine monday (mk_time 23 45 0))
              (combine (monday + 1) (mk_time 0 15 0))"
    by (simp add: overlaps_def tuesday_off_def calendar_defs)
  have av: "is_available_for_slot example_db tutor_b
       (combine monday (mk_time 23 45 0)) (combine (monday + 1) (mk_time 0 15 0))"
    by (simp add: is_available_for_slot_def example_exceptions_b example_bookings_b ov
        availability_for_day_def example_availability_b block_all_day_def Let_def)
      (simp add: calendar_defs)
  have rest: "tuesday_off \<in> set (Tutor_exceptions example_db tutor_b)"
      "is_full_day tuesday_off"
      "combine monday (mk_time 23 45 0) < combine (monday + 1) (mk_time 0 15 0)"
      "combine (TE_date tuesday_off) 0 < combine (monday + 1) (mk_time 0 15 0)"
      "combine monday (mk_time 23 45 0) < combine (TE_date tuesday_off + 1) 0"
      "combine monday (mk_time 23 45 0) + timedelta_minutes 30
         = combine (monday + 1) (mk_time 0 15 0)"
    by (simp_all add: example_exceptions_b is_full_day_def tuesday_off_def combine_def
        mk_time_def DAY_def timedelta_minutes_def monday_def)
  with av show ?thesis by blast
qed


section \<open>Fair selection\<close>

lemma map_of_fold_update:
  "map_of (fold (\<lambda>t. AList.update (f t) (h (f t))) cs al) k =
     (if k \<in> f ` set cs then Some (h k) else map_of al k)"
  by (induction cs arbitrary: al) (auto simp: update_conv')

lemma distinct_fold_update:
  "distinct (map fst al) \<Longrightarrow>
   distinct (map fst (fold (\<lambda>t. AList.update (f t) (g t)) cs al))"
  by (induction cs arbitrary: al) (auto simp: distinct_update)

lemma total_bookings_of_id: "total_bookings db tutor = bookings_of_id db (T_id tutor)"
  by (simp add: total_bookings_def bookings_of_id_def Tutor_bookings_def)

lemma booking_counts_of_fold:
  "booking_counts_of db cs =
     fold (\<lambda>t. AList.update (T_id t) (bookings_of_id db (T_id t))) cs []"
  by (simp add: booking_counts_of_def bookings_of_id_def Tutor_bookings_def)

lemma map_of_booking_counts:
  "tutor \<in> set cs \<Longrightarrow>
   map_of (booking_counts_of db cs) (T_id tutor) = Some (total_bookings db tutor)"
  unfolding booking_counts_of_fold total_bookings_of_id
  by (subst map_of_fold_update) auto

lemma values_booking_counts:
  "set (map snd (booking_counts_of db cs)) = total_bookings db ` set cs"
proof -
  let ?al = "booking_counts_of db cs"
  have d: "distinct (map fst ?al)"
    unfolding booking_counts_of_fold by (rule distinct_fold_update) simp
  have m: "map_of ?al k = (if k \<in> T_id ` set cs then Some (bookings_of_id db k) else None)"
    for k
    unfolding booking_counts_of_fold by (subst map_of_fold_update) simp
  have "(k, v) \<in> set ?al \<longleftrightarrow> k \<in> T_id ` set cs \<and> v = bookings_of_id db k" for k v
    using map_of_eq_Some_iff[OF d, of k v] m[of k] by (auto split: if_splits)
  then have "set ?al = (\<lambda>t. (T_id t, bookings_of_id db (T_id t))) ` set cs"
    by (auto simp: image_iff)
  then show ?thesis
    by (simp add: image_image total_bookings_of_id[abs_def])
qed

lemma min_count_booking_counts:
  assumes "cs \<noteq> []"
  shows "min_list (map snd (booking_counts_of db cs)) = Min (total_bookings db ` set cs)"
proof -
  have "set (map snd (booking_counts_of db cs)) \<noteq> {}"
    using assms by (simp only: values_booking_counts) simp
  then have "map snd (booking_counts_of db cs) \<noteq> []" by auto
  then have "min_list (map snd (booking_counts_of db cs))
               = Min (set (map snd (booking_counts_of db cs)))"
    by (rule min_list_Min)
  then show ?thesis by (simp only: values_booking_counts)
qed

lemma smallest_eq:
  assumes "cs \<noteq> []"
  shows "[tutor \<leftarrow> cs. map_of (booking_counts_of db cs) (T_id tutor)
                         = Some (min_list (map snd (booking_counts_of db cs)))]
         = [tutor \<leftarrow> cs. total_bookings db tutor = Min (total_bookings db ` set cs)]"
  by (rule filter_cong) (simp_all add: map_of_booking_counts min_count_booking_counts[OF assms])

lemma pick_fair_tutor_nonempty:
  fixes db :: database and cs :: "Tutor list"
  defines "smallest \<equiv> [tutor \<leftarrow> cs. total_bookings db tutor = Min (total_bookings db ` set cs)]"
  assumes "cs \<noteq> []"
  shows "smallest \<noteq> []"
    and "pick_fair_tutor db cs r = Inr (Some (smallest ! (r mod length smallest)))"
proof -
  have "Min (total_bookings db ` set cs) \<in> total_bookings db ` set cs"
    using assms(2) by (intro Min_in) simp_all
  then obtain t where "t \<in> set cs" "total_bookings db t = Min (total_bookings db ` set cs)"
    by auto
  then have "t \<in> set smallest" by (simp add: smallest_def)
  then show ne: "smallest \<noteq> []" by auto
  show "pick_fair_tutor db cs r = Inr (Some (smallest ! (r mod length smallest)))"
    using assms(2) ne
    by (simp add: pick_fair_tutor_def Let_def smallest_eq[OF assms(2)] random_choice_def
        smallest_def)
qed

text \<open>
  C5. \<open>pick_fair_tutor\<close> returns none exactly when there is no candidate. Otherwise,
  whatever the random generator draws, it returns a candidate whose number of
  non-canceled bookings is the minimum over the candidates; and when one candidate
  alone has the minimum, that candidate is returned for every draw.
\<close>

theorem pick_fair_tutor_minimum_load:
  "(pick_fair_tutor db candidates r = Inr None \<longleftrightarrow> candidates = [])
   \<and> (candidates \<noteq> [] \<longrightarrow>
        (\<exists>tutor. pick_fair_tutor db candidates r = Inr (Some tutor)
           \<and> tutor \<in> set candidates
           \<and> total_bookings db tutor = Min (total_bookings db ` set candidates)))
   \<and> (\<forall>tutor. tutor \<in> set candidates
         \<and> total_bookings db tutor = Min (total_bookings db ` set candidates)
         \<and> (\<forall>other \<in> set candidates.
               total_bookings db other = Min (total_bookings db ` set candidates)
               \<longrightarrow> other = tutor)
         \<longrightarrow> (\<forall>draw. pick_fair_tutor db candidates draw = Inr (Some tutor)))"
proof -
  let ?m = "Min (total_bookings db ` set candidates)"
  let ?smallest = "[tutor \<leftarrow> candidates. total_bookings db tutor = ?m]"
  have picked: "pick_fair_tutor db candidates draw
                  = Inr (Some (?smallest ! (draw mod length ?smallest)))"
    and member: "?smallest ! (draw mod length ?smallest) \<in> set ?smallest"
    if "candidates \<noteq> []" for draw
  proof -
    show "pick_fair_tutor db candidates draw
            = Inr (Some (?smallest ! (draw mod length ?smallest)))"
      by (rule pick_fair_tutor_nonempty(2)[OF that])
    have "?smallest \<noteq> []" by (rule pick_fair_tutor_nonempty(1)[OF that])
    then show "?smallest ! (draw mod length ?smallest) \<in> set ?smallest"
      by (intro nth_mem) simp
  qed
  have 1: "pick_fair_tutor db candidates r = Inr None \<longleftrightarrow> candidates = []"
  proof (cases "candidates = []")
    case True
    then show ?thesis by (simp add: pick_fair_tutor_def)
  next
    case False
    with picked[OF False, of r] show ?thesis by simp
  qed
  have 2: "\<exists>tutor. pick_fair_tutor db candidates r = Inr (Some tutor)
           \<and> tutor \<in> set candidates \<and> total_bookings db tutor = ?m"
    if "candidates \<noteq> []"
    using picked[OF that, of r] member[OF that, of r] by auto
  have 3: "pick_fair_tutor db candidates draw = Inr (Some tutor)"
    if "tutor \<in> set candidates" and "total_bookings db tutor = ?m"
      and "\<forall>other \<in> set candidates. total_bookings db other = ?m \<longrightarrow> other = tutor"
    for tutor draw
  proof -
    from that(1) have ne: "candidates \<noteq> []" by auto
    from member[OF ne, of draw] that(3)
    have "?smallest ! (draw mod length ?smallest) = tutor" by auto
    with picked[OF ne, of draw] show ?thesis by simp
  qed
  from 1 2 3 show ?thesis by blast
qed

lemma example_load_a: "total_bookings example_db tutor_a = 1"
  by (simp add: total_bookings_def Tutor_bookings_def example_db_def tutor_a_def
      booking_1530_def booking_1630_def)

lemma example_load_b: "total_bookings example_db tutor_b = 0"
  by (simp add: total_bookings_def Tutor_bookings_def example_db_def tutor_b_def
      booking_1530_def booking_1630_def)

text \<open>Tutor 1 has one active booking and tutor 2 none: tutor 2 is picked for every
  draw.\<close>

theorem pick_fair_tutor_minimum_load_witness:
  "[tutor_a, tutor_b] \<noteq> []
   \<and> total_bookings example_db tutor_a = 1
   \<and> total_bookings example_db tutor_b = 0
   \<and> (\<forall>draw. pick_fair_tutor example_db [tutor_a, tutor_b] draw = Inr (Some tutor_b))"
proof -
  have m: "Min (total_bookings example_db ` set [tutor_a, tutor_b]) = 0"
    by (simp add: example_load_a example_load_b)
  have ne: "tutor_a \<noteq> tutor_b" by (simp add: tutor_a_def tutor_b_def)
  have "\<forall>draw. pick_fair_tutor example_db [tutor_a, tutor_b] draw = Inr (Some tutor_b)"
    using pick_fair_tutor_minimum_load[of example_db "[tutor_a, tutor_b]" 0]
    by (simp add: m example_load_a example_load_b)
  then show ?thesis by (simp add: example_load_a example_load_b)
qed


section \<open>The booking window\<close>

lemma minimum_bookable_date_cases:
  "minimum_bookable_date clock (Some now) =
     (if mk_time 22 0 0 \<le> time_of now then date_of now + 2 else date_of now + 1)"
  by (simp add: minimum_bookable_date_def timedelta_days_def Let_def)

lemma reasons_differ:
  "''Same-day bookings are not available.'' @ x
     \<noteq> ''After 10:00 PM Pacific, next-day sessions close.'' @ y"
  by simp

text \<open>
  C6. With \<open>now\<close> the reading of the clock in the reference timezone:
  the earliest bookable date is the day after \<open>now\<close>'s date when the time of day is
  before 22:00 (so at 21:00:00 and at 21:59:59 of any day) and two days after it from
  22:00 on; called without an argument the function reads the clock. The window status
  denies exactly the target dates before the earliest bookable date and returns that
  date; the message starts with the same-day reason when the target is today or
  earlier and with the cutoff reason otherwise (which happens only from 22:00 on, for
  tomorrow), and the two messages are different.
\<close>

theorem booking_window_cutoff:
  "(time_of now < mk_time 22 0 0 \<longrightarrow>
      minimum_bookable_date clock (Some now) = date_of now + 1)
   \<and> (mk_time 22 0 0 \<le> time_of now \<longrightarrow>
        minimum_bookable_date clock (Some now) = date_of now + 2)
   \<and> minimum_bookable_date clock None = minimum_bookable_date clock (Some clock)
   \<and> minimum_bookable_date clock (Some (combine d (mk_time 21 0 0))) = d + 1
   \<and> minimum_bookable_date clock (Some (combine d (mk_time 21 59 59))) = d + 1
   \<and> minimum_bookable_date clock (Some (combine d (mk_time 22 0 0))) = d + 2
   \<and> (\<not> fst (booking_window_status fmt now target)
        \<longleftrightarrow> target < minimum_bookable_date now (Some now))
   \<and> snd (snd (booking_window_status fmt now target)) = minimum_bookable_date now (Some now)
   \<and> (target < minimum_bookable_date now (Some now) \<and> target \<le> date_of now \<longrightarrow>
        fst (snd (booking_window_status fmt now target)) =
          ''Same-day bookings are not available.'' @ '' Earliest available date is ''
            @ fmt (minimum_bookable_date now (Some now)))
   \<and> (target < minimum_bookable_date now (Some now) \<and> date_of now < target \<longrightarrow>
        fst (snd (booking_window_status fmt now target)) =
          ''After 10:00 PM Pacific, next-day sessions close.''
            @ '' Earliest available date is '' @ fmt (minimum_bookable_date now (Some now))
        \<and> mk_time 22 0 0 \<le> time_of now \<and> target = date_of now + 1)
   \<and> (\<forall>x y. ''Same-day bookings are not available.'' @ '' Earliest available date is '' @ x
          \<noteq> ''After 10:00 PM Pacific, next-day sessions close.''
              @ '' Earliest available date is '' @ y)"
proof (intro conjI)
  show "time_of now < mk_time 22 0 0 \<longrightarrow>
      minimum_bookable_date clock (Some now) = date_of now + 1"
    by (simp add: minimum_bookable_date_cases)
  show "mk_time 22 0 0 \<le> time_of now \<longrightarrow>
        minimum_bookable_date clock (Some now) = date_of now + 2"
    by (simp add: minimum_bookable_date_cases)
  show "minimum_bookable_date clock None = minimum_bookable_date clock (Some clock)"
    by (simp add: minimum_bookable_date_def)
  show "minimum_bookable_date clock (Some (combine d (mk_time 21 0 0))) = d + 1"
    by (simp add: minimum_bookable_date_cases combine_def date_of_def time_of_def
        mk_time_def DAY_def)
  show "minimum_bookable_date clock (Some (combine d (mk_time 21 59 59))) = d + 1"
    by (simp add: minimum_bookable_date_cases combine_def date_of_def time_of_def
        mk_time_def DAY_def)
  show "minimum_bookable_date clock (Some (combine d (mk_time 22 0 0))) = d + 2"
    by (simp add: minimum_bookable_date_cases combine_def date_of_def time_of_def
        mk_time_def DAY_def)
  show "\<not> fst (booking_window_status fmt now target)
        \<longleftrightarrow> target < minimum_bookable_date now (Some now)"
    by (simp add: booking_window_status_def Let_def)
  show "snd (snd (booking_window_status fmt now target)) = minimum_bookable_date now (Some now)"
    by (simp add: booking_window_status_def Let_def)
  show "target < minimum_bookable_date now (Some now) \<and> target \<le> date_of now \<longrightarrow>
        fst (snd (booking_window_status fmt now target)) =
          ''Same-day bookings are not available.'' @ '' Earliest available date is ''
            @ fmt (minimum_bookable_date now (Some now))"
    by (simp add: booking_window_status_def Let_def)
  show "target < minimum_bookable_date now (Some now) \<and> date_of now < target \<longrightarrow>
        fst (snd (booking_window_status fmt now target)) =
          ''After 10:00 PM Pacific, next-day sessions close.''
            @ '' Earliest available date is '' @ fmt (minimum_bookable_date now (Some now))
        \<and> mk_time 22 0 0 \<le> time_of now \<and> target = date_of now + 1"
    by (auto simp: booking_window_status_def Let_def minimum_bookable_date_cases
        split: if_splits)
  show "\<forall>x y. ''Same-day bookings are not available.'' @ '' Earliest available date is '' @ x
          \<noteq> ''After 10:00 PM Pacific, next-day sessions close.''
              @ '' Earliest available date is '' @ y"
    by simp
qed

text \<open>Monday 21:59:59.999999 still allows Tuesday; Monday 22:00 does not, and the
  refusal of Tuesday then gives the cutoff reason, the one of Monday the same-day
  reason.\<close>

theorem booking_window_cutoff_witness:
  "time_of (combine monday (mk_time 21 59 59 + 999999)) < mk_time 22 0 0
   \<and> minimum_bookable_date 0 (Some (combine monday (mk_time 21 59 59 + 999999))) = monday + 1
   \<and> mk_time 22 0 0 \<le> time_of (combine monday (mk_time 22 0 0))
   \<and> minimum_bookable_date 0 (Some (combine monday (mk_time 22 0 0))) = monday + 2
   \<and> monday + 1 < minimum_bookable_date (combine monday (mk_time 22 0 0))
                     (Some (combine monday (mk_time 22 0 0)))
   \<and> date_of (combine monday (mk_time 22 0 0)) < monday + 1
   \<and> booking_window_status (\<lambda>d. ''January 03, 2024'') (combine monday (mk_time 22 0 0))
        (monday + 1)
       = (False,
          ''After 10:00 PM Pacific, next-day sessions close. Earliest available date is January 03, 2024'',
          monday + 2)
   \<and> monday \<le> date_of (combine monday (mk_time 22 0 0))
   \<and> booking_window_status (\<lambda>d. ''January 03, 2024'') (combine monday (mk_time 22 0 0))
        monday
       = (False,
          ''Same-day bookings are not available. Earliest available date is January 03, 2024'',
          monday + 2)"
proof -
  let ?late = "combine monday (mk_time 21 59 59 + 999999)"
  let ?cut = "combine monday (mk_time 22 0 0)"
  let ?fmt = "\<lambda>d::int. ''January 03, 2024''"
  have a: "time_of ?late < mk_time 22 0 0" "date_of ?late = monday"
    by (simp_all add: calendar_defs)
  have b: "mk_time 22 0 0 \<le> time_of ?cut" "date_of ?cut = monday"
    by (simp_all add: calendar_defs)
  note w1 = booking_window_cutoff[of ?late 0 monday ?fmt "monday + 1"]
  note w2 = booking_window_cutoff[of ?cut 0 monday ?fmt "monday + 1"]
  note w3 = booking_window_cutoff[of ?cut 0 monday ?fmt monday]
  have 1: "minimum_bookable_date 0 (Some ?late) = monday + 1"
    using w1 a by simp
  have 2: "minimum_bookable_date 0 (Some ?cut) = monday + 2"
    using w2 b by simp
  have m2: "minimum_bookable_date ?cut (Some ?cut) = monday + 2"
    using booking_window_cutoff[of ?cut ?cut monday ?fmt monday] b by simp
  have 3: "booking_window_status ?fmt ?cut (monday + 1)
       = (False,
          ''After 10:00 PM Pacific, next-day sessions close. Earliest available date is January 03, 2024'',
          monday + 2)"
    using w2 b m2 by (cases "booking_window_status ?fmt ?cut (monday + 1)") simp
  have 4: "booking_window_status ?fmt ?cut monday
       = (False,
          ''Same-day bookings are not available. Earliest available date is January 03, 2024'',
          monday + 2)"
    using w3 b m2 by (cases "booking_window_status ?fmt ?cut monday") simp
  from a b 1 2 m2 3 4 show ?thesis by simp
qed


section \<open>Cancellation\<close>

text \<open>What \<open>cancel_booking\<close> leaves in the database: the database it was given, or that
  database with the three cancellation columns written in the rows with the booking's
  key; the second only for a booking that was found not canceled and belongs to the
  tutor of the session.\<close>

lemma cancel_booking_database:
  "fst (cancel_booking utc_now fault db session_tutor_id booking_id raw_reason) = db
   \<or> (fst (cancel_booking utc_now fault db session_tutor_id booking_id raw_reason) =
        db\<lparr>bookings :=
             map (\<lambda>row. if B_id row = booking_id
                         then row\<lparr>B_is_canceled := True,
                                  B_canceled_at := Some utc_now,
                                  B_cancel_reason :=
                                    (if strip raw_reason = [] then None
                                     else Some (take 255 (strip raw_reason)))\<rparr>
                         else row)
               (bookings db)\<rparr>
      \<and> (\<exists>tutor booking.
            get_current_tutor db session_tutor_id = Some tutor
            \<and> find (\<lambda>booking. B_id booking = booking_id) (bookings db) = Some booking
            \<and> B_tutor_id booking = T_id tutor \<and> \<not> B_is_canceled booking))"
  by (auto simp: cancel_booking_def Let_def split: option.splits)

lemma cancel_booking_success:
  assumes "get_current_tutor db session_tutor_id = Some tutor"
    and "find (\<lambda>booking. B_id booking = booking_id) (bookings db) = Some booking"
    and "B_tutor_id booking = T_id tutor"
    and "\<not> B_is_canceled booking"
    and "\<not> fault"
  shows "cancel_booking utc_now fault db session_tutor_id booking_id raw_reason =
     (db\<lparr>bookings :=
           map (\<lambda>row. if B_id row = booking_id
                       then row\<lparr>B_is_canceled := True,
                                B_canceled_at := Some utc_now,
                                B_cancel_reason :=
                                  (if strip raw_reason = [] then None
                                   else Some (take 255 (strip raw_reason)))\<rparr>
                       else row)
             (bookings db)\<rparr>,
      Redirect_dashboard ''Booking canceled. Please notify the student if possible.''
        ''info'')"
proof -
  from assms(1) have "session_tutor_id \<noteq> None" "session_tutor_id \<noteq> Some 0"
    by (auto simp: get_current_tutor_def split: option.splits if_splits)
  with assms show ?thesis
    by (simp add: cancel_booking_def Let_def)
qed

lemma cancel_booking_already_canceled:
  assumes "find (\<lambda>booking. B_id booking = booking_id) (bookings db) = Some booking"
    and "B_is_canceled booking"
  shows "fst (cancel_booking utc_now fault db session_tutor_id booking_id raw_reason) = db"
  using assms by (auto simp: cancel_booking_def Let_def split: option.splits)

text \<open>
  C9. Whatever the request, \<open>cancel_booking\<close> deletes no row and leaves every row's
  key, tutor, subject, student name and phone, start, end and creation time as they
  were; the other tables are untouched, and a row that changes has the booking's key.
  When the booking found under the key is already canceled the database is unchanged.
  When it is not canceled and belongs to the tutor of the session, and the commit does
  not fail, the rows with its key get the canceled flag, the time of the request as
  cancellation time, and the reason: the stripped form field cut to 255 characters, or
  nothing when it is empty.
\<close>

theorem cancel_booking_frame:
  "(let db' = fst (cancel_booking utc_now fault db session_tutor_id booking_id raw_reason);
        reason = strip raw_reason
    in length (bookings db') = length (bookings db)
       \<and> subjects db' = subjects db \<and> tutors db' = tutors db
       \<and> tutor_subjects db' = tutor_subjects db
       \<and> weekly_availability db' = weekly_availability db
       \<and> tutor_exceptions db' = tutor_exceptions db
       \<and> (\<forall>i. i < length (bookings db) \<longrightarrow>
             B_id (bookings db' ! i) = B_id (bookings db ! i)
             \<and> B_tutor_id (bookings db' ! i) = B_tutor_id (bookings db ! i)
             \<and> B_subject_id (bookings db' ! i) = B_subject_id (bookings db ! i)
             \<and> B_student_name (bookings db' ! i) = B_student_name (bookings db ! i)
             \<and> B_student_phone (bookings db' ! i) = B_student_phone (bookings db ! i)
             \<and> B_start_time (bookings db' ! i) = B_start_time (bookings db ! i)
             \<and> B_end_time (bookings db' ! i) = B_end_time (bookings db ! i)
             \<and> B_created_at (bookings db' ! i) = B_created_at (bookings db ! i)
             \<and> (B_id (bookings db ! i) \<noteq> booking_id \<longrightarrow>
                  bookings db' ! i = bookings db ! i))
       \<and> (\<forall>booking.
             find (\<lambda>booking. B_id booking = booking_id) (bookings db) = Some booking
             \<and> B_is_canceled booking \<longrightarrow> db' = db)
       \<and> (\<forall>tutor booking.
             get_current_tutor db session_tutor_id = Some tutor
             \<and> find (\<lambda>booking. B_id booking = booking_id) (bookings db) = Some booking
             \<and> B_tutor_id booking = T_id tutor \<and> \<not> B_is_canceled booking \<and> \<not> fault
             \<longrightarrow>
             (\<forall>i. i < length (bookings db) \<and> B_id (bookings db ! i) = booking_id \<longrightarrow>
                bookings db' ! i =
                  (bookings db ! i)
                    \<lparr>B_is_canceled := True,
                     B_canceled_at := Some utc_now,
                     B_cancel_reason :=
                       (if reason = [] then None else Some (take 255 reason))\<rparr>)))"
proof -
  let ?db' = "fst (cancel_booking utc_now fault db session_tutor_id booking_id raw_reason)"
  let ?upd = "\<lambda>row. if B_id row = booking_id
                     then row\<lparr>B_is_canceled := True,
                              B_canceled_at := Some utc_now,
                              B_cancel_reason :=
                                (if strip raw_reason = [] then None
                                 else Some (take 255 (strip raw_reason)))\<rparr>
                     else row"
  have cases: "?db' = db \<or> ?db' = db\<lparr>bookings := map ?upd (bookings db)\<rparr>"
    using cancel_booking_database[of utc_now fault db session_tutor_id booking_id raw_reason]
    by blast
  have len: "length (bookings ?db') = length (bookings db)"
    using cases by auto
  have tables: "subjects ?db' = subjects db" "tutors ?db' = tutors db"
      "tutor_subjects ?db' = tutor_subjects db"
      "weekly_availability ?db' = weekly_availability db"
      "tutor_exceptions ?db' = tutor_exceptions db"
    using cases by auto
  have frame: "B_id (bookings ?db' ! i) = B_id (bookings db ! i)
             \<and> B_tutor_id (bookings ?db' ! i) = B_tutor_id (bookings db ! i)
             \<and> B_subject_id (bookings ?db' ! i) = B_subject_id (bookings db ! i)
             \<and> B_student_name (bookings ?db' ! i) = B_student_name (bookings db ! i)
             \<and> B_student_phone (bookings ?db' ! i) = B_student_phone (bookings db ! i)
             \<and> B_start_time (bookings ?db' ! i) = B_start_time (bookings db ! i)
             \<and> B_end_time (bookings ?db' ! i) = B_end_time (bookings db ! i)
             \<and> B_created_at (bookings ?db' ! i) = B_created_at (bookings db ! i)
             \<and> (B_id (bookings db ! i) \<noteq> booking_id \<longrightarrow>
                  bookings ?db' ! i = bookings db ! i)"
    if "i < length (bookings db)" for i
    using cases that by auto
  have noop: "?db' = db"
    if "find (\<lambda>booking. B_id booking = booking_id) (bookings db) = Some booking
        \<and> B_is_canceled booking" for booking
    using that cancel_booking_already_canceled by blast
  have written: "bookings ?db' ! i =
                  (bookings db ! i)
                    \<lparr>B_is_canceled := True,
                     B_canceled_at := Some utc_now,
                     B_cancel_reason :=
                       (if strip raw_reason = [] then None
                        else Some (take 255 (strip raw_reason)))\<rparr>"
    if "get_current_tutor db session_tutor_id = Some tutor
        \<and> find (\<lambda>booking. B_id booking = booking_id) (bookings db) = Some booking
        \<and> B_tutor_id booking = T_id tutor \<and> \<not> B_is_canceled booking \<and> \<not> fault"
      and "i < length (bookings db) \<and> B_id (bookings db ! i) = booking_id"
    for tutor booking i
  proof -
    from that(1) have "?db' = db\<lparr>bookings := map ?upd (bookings db)\<rparr>"
      by (simp add: cancel_booking_success)
    with that(2) show ?thesis by simp
  qed
  show ?thesis
    unfolding Let_def
    using len tables frame noop written by blast
qed

text \<open>Tutor 1 cancels the booking with key 1 and, a second time, the booking with
  key 2 that is canceled already.\<close>

theorem cancel_booking_frame_witness:
  "get_current_tutor example_db (Some 1) = Some tutor_a
   \<and> find (\<lambda>booking. B_id booking = 1) (bookings example_db) = Some booking_1530
   \<and> B_tutor_id booking_1530 = T_id tutor_a \<and> \<not> B_is_canceled booking_1530
   \<and> bookings (fst (cancel_booking (combine monday 0) False example_db (Some 1) 1 '' ill  '')) ! 0
       = booking_1530\<lparr>B_is_canceled := True, B_canceled_at := Some (combine monday 0),
                       B_cancel_reason := Some ''ill''\<rparr>
   \<and> bookings (fst (cancel_booking (combine monday 0) False example_db (Some 1) 1 '' ill  '')) ! 1
       = booking_1630
   \<and> find (\<lambda>booking. B_id booking = 2) (bookings example_db) = Some booking_1630
   \<and> B_is_canceled booking_1630
   \<and> fst (cancel_booking (combine monday 0) False example_db (Some 1) 2 '' ill  '') = example_db"
proof -
  have t: "get_current_tutor example_db (Some 1) = Some tutor_a"
    by (simp add: get_current_tutor_def example_db_def tutor_a_def)
  have f1: "find (\<lambda>booking. B_id booking = 1) (bookings example_db) = Some booking_1530"
    by (simp add: example_db_def booking_1530_def)
  have f2: "find (\<lambda>booking. B_id booking = 2) (bookings example_db) = Some booking_1630"
    by (simp add: example_db_def booking_1530_def booking_1630_def)
  have o: "B_tutor_id booking_1530 = T_id tutor_a" "\<not> B_is_canceled booking_1530"
      "B_is_canceled booking_1630"
    by (simp_all add: booking_1530_def booking_1630_def tutor_a_def)
  have s: "strip '' ill  '' = ''ill''"
    by (simp add: strip_def isspace_def)
  have rows: "length (bookings example_db) = 2" "bookings example_db ! 0 = booking_1530"
      "bookings example_db ! 1 = booking_1630" "B_id booking_1530 = 1" "B_id booking_1630 = 2"
    by (simp_all add: example_db_def booking_1530_def booking_1630_def)
  note c1 = cancel_booking_frame[of "combine monday 0" False example_db "Some 1" 1 "'' ill  ''",
      unfolded Let_def]
  note c2 = cancel_booking_frame[of "combine monday 0" False example_db "Some 1" 2 "'' ill  ''",
      unfolded Let_def]
  have r0: "bookings (fst (cancel_booking (combine monday 0) False example_db (Some 1) 1 '' ill  '')) ! 0
       = booking_1530\<lparr>B_is_canceled := True, B_canceled_at := Some (combine monday 0),
                       B_cancel_reason := Some ''ill''\<rparr>"
    using c1 t f1 o rows s by auto
  have r1: "bookings (fst (cancel_booking (combine monday 0) False example_db (Some 1) 1 '' ill  '')) ! 1
       = booking_1630"
    using c1 rows by auto
  have r2: "fst (cancel_booking (combine monday 0) False example_db (Some 1) 2 '' ill  '') = example_db"
    using c2 f2 o by blast
  from t f1 f2 o r0 r1 r2 show ?thesis by simp
qed


section \<open>Booking\<close>

lemma pick_fair_tutor_member:
  assumes "pick_fair_tutor db cs r = Inr (Some tutor)"
  shows "tutor \<in> set cs"
proof (cases "cs = []")
  case True
  with assms show ?thesis by (simp add: pick_fair_tutor_def)
next
  case False
  let ?smallest = "[t \<leftarrow> cs. total_bookings db t = Min (total_bookings db ` set cs)]"
  have eq: "tutor = ?smallest ! (r mod length ?smallest)"
    using pick_fair_tutor_nonempty(2)[OF False, of db r] assms by simp
  have "?smallest \<noteq> []" by (rule pick_fair_tutor_nonempty(1)[OF False])
  then have "r mod length ?smallest < length ?smallest" by simp
  then have "?smallest ! (r mod length ?smallest) \<in> set ?smallest" by (rule nth_mem)
  with eq have "tutor \<in> set ?smallest" by simp
  then show ?thesis by simp
qed

lemma pick_fair_tutor_no_error: "pick_fair_tutor db cs r \<noteq> Inl err"
proof (cases "cs = []")
  case True
  then show ?thesis by (simp add: pick_fair_tutor_def)
next
  case False
  from pick_fair_tutor_nonempty(2)[OF False, of db r] show ?thesis by simp
qed

lemma pick_fair_tutor_empty: "pick_fair_tutor db [] r = Inr None"
  by (simp add: pick_fair_tutor_def)

text \<open>What \<open>book\<close> leaves in the database: the database it was given, or that database
  with one more booking, not canceled, for a tutor that \<open>is_available_for_slot\<close>
  reported free for the booking's interval.\<close>

lemma book_database:
  "fst (book cfg env db form) = db
   \<or> (\<exists>tutor booking.
         fst (book cfg env db form) = db\<lparr>bookings := bookings db @ [booking]\<rparr>
         \<and> B_tutor_id booking = T_id tutor \<and> \<not> B_is_canceled booking
         \<and> is_available_for_slot db tutor (B_start_time booking) (B_end_time booking))"
proof (cases "book_validate env db form")
  case (Inl page)
  then show ?thesis by (simp add: book_def)
next
  case (Inr v)
  obtain subject_id subject name phone target_date start_time
    where v: "v = (subject_id, subject, name, phone, target_date, start_time)"
    by (cases v) auto
  define start_dt where "start_dt = combine target_date start_time"
  define end_dt where "end_dt = start_dt + timedelta_minutes (slot_minutes cfg)"
  define candidates where "candidates = available_tutors_for_slot db subject_id start_dt end_dt"
  show ?thesis
  proof (cases "pick_fair_tutor db candidates (random_draw env)")
    case (Inl err)
    then show ?thesis using pick_fair_tutor_no_error by blast
  next
    case pick: (Inr picked)
    show ?thesis
    proof (cases picked)
      case None
      with Inr v pick show ?thesis
        by (simp add: book_def Let_def start_dt_def end_dt_def candidates_def)
    next
      case (Some tutor)
      with pick have "tutor \<in> set candidates" by (auto dest: pick_fair_tutor_member)
      then have free: "is_available_for_slot db tutor start_dt end_dt"
        by (simp add: candidates_def available_tutors_for_slot_def)
      define booking where "booking =
         \<lparr>B_id = next_booking_id db, B_tutor_id = T_id tutor,
          B_subject_id = Some (S_id subject), B_student_name = name,
          B_student_phone = phone, B_start_time = start_dt, B_end_time = end_dt,
          B_created_at = utcnow env, B_is_canceled = False, B_canceled_at = None,
          B_cancel_reason = None\<rparr>"
      have b: "B_tutor_id booking = T_id tutor" "\<not> B_is_canceled booking"
          "B_start_time booking = start_dt" "B_end_time booking = end_dt"
        by (simp_all add: booking_def)
      have bk: "book cfg env db form =
          (case commit_booking db (storage_fault env) booking of
             Inl _ \<Rightarrow>
               (db, Booking_page ''Unable to confirm booking. Please try another time slot.''
                      ''danger'')
           | Inr db' \<Rightarrow> (db', Confirmation booking tutor))"
        unfolding booking_def start_dt_def end_dt_def
        using Inr v pick Some
        by (simp add: book_def Let_def start_dt_def end_dt_def candidates_def)
      show ?thesis
      proof (cases "commit_booking db (storage_fault env) booking")
        case (Inl e)
        with bk show ?thesis by simp
      next
        case (Inr db')
        then have "db' = db\<lparr>bookings := bookings db @ [booking]\<rparr>"
          by (auto simp: commit_booking_def split: if_splits)
        with bk Inr b free show ?thesis by auto
      qed
    qed
  qed
qed

lemma book_after_validate:
  assumes "book_validate env db form =
             Inr (subject_id, subject, name, phone, target_date, start_time)"
  shows "book cfg env db form =
     (case pick_fair_tutor db
             (available_tutors_for_slot db subject_id (combine target_date start_time)
                (combine target_date start_time + timedelta_minutes (slot_minutes cfg)))
             (random_draw env) of
        Inl err \<Rightarrow> (db, Server_error err)
      | Inr None \<Rightarrow>
          (db, Booking_page ''Sorry, that time was just booked. Please choose another slot.''
                 ''warning'')
      | Inr (Some tutor) \<Rightarrow>
          (case commit_booking db (storage_fault env)
                  \<lparr>B_id = next_booking_id db, B_tutor_id = T_id tutor,
                   B_subject_id = Some (S_id subject), B_student_name = name,
                   B_student_phone = phone,
                   B_start_time = combine target_date start_time,
                   B_end_time = combine target_date start_time
                                  + timedelta_minutes (slot_minutes cfg),
                   B_created_at = utcnow env, B_is_canceled = False,
                   B_canceled_at = None, B_cancel_reason = None\<rparr> of
             Inl _ \<Rightarrow>
               (db, Booking_page ''Unable to confirm booking. Please try another time slot.''
                      ''danger'')
           | Inr db' \<Rightarrow>
               (db', Confirmation
                       \<lparr>B_id = next_booking_id db, B_tutor_id = T_id tutor,
                        B_subject_id = Some (S_id subject), B_student_name = name,
                        B_student_phone = phone,
                        B_start_time = combine target_date start_time,
                        B_end_time = combine target_date start_time
                                       + timedelta_minutes (slot_minutes cfg),
                        B_created_at = utcnow env, B_is_canceled = False,
                        B_canceled_at = None, B_cancel_reason = None\<rparr>
                       tutor)))"
  using assms by (simp add: book_def Let_def split: sum.split option.split)

lemma commit_booking_fault:
  "fault \<Longrightarrow> commit_booking db fault booking = Inl OperationalError"
  by (simp add: commit_booking_def)

lemma commit_booking_duplicate:
  "\<not> fault \<Longrightarrow>
   list_ex (\<lambda>row. B_tutor_id row = B_tutor_id booking
                   \<and> B_start_time row = B_start_time booking) (bookings db) \<Longrightarrow>
   commit_booking db fault booking = Inl IntegrityError"
  by (simp add: commit_booking_def)

text \<open>
  C7 (as amended: the report is the one of every failed commit). For a request that
  passed validation: when no tutor is eligible \<open>book\<close> answers with the capacity
  message; when a tutor is picked and the insert violates the uniqueness constraint on
  tutor and start time, \<open>book\<close> answers with the message ``Unable to confirm booking''
  and leaves the database as it was, so nothing is retried or inserted; the same answer
  follows any other failure of the commit; and that message differs from the capacity
  message.
\<close>

theorem book_commit_failure_report:
  assumes "book_validate env db form =
             Inr (subject_id, subject, name, phone, target_date, start_time)"
  shows "let start_dt = combine target_date start_time;
             end_dt = start_dt + timedelta_minutes (slot_minutes cfg);
             candidates = available_tutors_for_slot db subject_id start_dt end_dt;
             unable = Booking_page
                        ''Unable to confirm booking. Please try another time slot.''
                        ''danger'';
             just_booked = Booking_page
                        ''Sorry, that time was just booked. Please choose another slot.''
                        ''warning''
         in (candidates = [] \<longrightarrow> book cfg env db form = (db, just_booked))
            \<and> (\<forall>tutor. pick_fair_tutor db candidates (random_draw env) = Inr (Some tutor)
                  \<and> \<not> storage_fault env
                  \<and> list_ex (\<lambda>row. B_tutor_id row = T_id tutor \<and> B_start_time row = start_dt)
                       (bookings db)
                  \<longrightarrow> book cfg env db form = (db, unable))
            \<and> (\<forall>tutor. pick_fair_tutor db candidates (random_draw env) = Inr (Some tutor)
                  \<and> storage_fault env
                  \<longrightarrow> book cfg env db form = (db, unable))
            \<and> unable \<noteq> just_booked"
proof -
  note bk = book_after_validate[OF assms, of cfg]
  have 1: "book cfg env db form =
      (db, Booking_page ''Sorry, that time was just booked. Please choose another slot.''
             ''warning'')"
    if "available_tutors_for_slot db subject_id (combine target_date start_time)
          (combine target_date start_time + timedelta_minutes (slot_minutes cfg)) = []"
    using bk that by (simp add: pick_fair_tutor_empty)
  have 2: "book cfg env db form =
      (db, Booking_page ''Unable to confirm booking. Please try another time slot.''
             ''danger'')"
    if "pick_fair_tutor db
          (available_tutors_for_slot db subject_id (combine target_date start_time)
             (combine target_date start_time + timedelta_minutes (slot_minutes cfg)))
          (random_draw env) = Inr (Some tutor)
        \<and> \<not> storage_fault env
        \<and> list_ex (\<lambda>row. B_tutor_id row = T_id tutor
                          \<and> B_start_time row = combine target_date start_time) (bookings db)"
    for tutor
    using bk that by (simp add: commit_booking_duplicate)
  have 3: "book cfg env db form =
      (db, Booking_page ''Unable to confirm booking. Please try another time slot.''
             ''danger'')"
    if "pick_fair_tutor db
          (available_tutors_for_slot db subject_id (combine target_date start_time)
             (combine target_date start_time + timedelta_minutes (slot_minutes cfg)))
          (random_draw env) = Inr (Some tutor)
        \<and> storage_fault env"
    for tutor
    using bk that by (simp add: commit_booking_fault)
  show ?thesis
    unfolding Let_def using 1 2 3 by blast
qed

lemmas example_defs =
  example_db_def tutor_a_def tutor_b_def block_15_17_def block_all_day_def tuesday_off_def
  booking_1530_def booking_1630_def default_config_def saturday_noon_def form_1630_def
  form_1500_def

lemma example_validate_1630:
  "book_validate saturday_noon example_db form_1630 =
     Inr (2, \<lparr>S_id = 2, S_name = ''IM2''\<rparr>, ''Sam'', ''5550000004'', monday, mk_time 16 30 0)"
  by (simp add: book_validate_def strip_def isspace_def normalize_phone_def isdigit_def
      booking_window_status_def minimum_bookable_date_def Let_def example_defs calendar_defs)

lemma example_validate_1500:
  "book_validate (saturday_noon\<lparr>storage_fault := True\<rparr>) example_db form_1500 =
     Inr (1, \<lparr>S_id = 1, S_name = ''IM1''\<rparr>, ''Sam'', ''5550000004'', monday, mk_time 15 0 0)"
  by (simp add: book_validate_def strip_def isspace_def normalize_phone_def isdigit_def
      booking_window_status_def minimum_bookable_date_def Let_def example_defs calendar_defs)

lemma example_active_tutors:
  "active_tutors_for_subject example_db 1 = [tutor_a, tutor_b]"
  "active_tutors_for_subject example_db 2 = [tutor_a]"
  by (simp_all add: active_tutors_for_subject_def example_defs)

lemma example_candidates_1630:
  "available_tutors_for_slot example_db 2 (combine monday (mk_time 16 30 0))
     (combine monday (mk_time 16 30 0) + timedelta_minutes (slot_minutes default_config))
   = [tutor_a]"
  by (simp add: available_tutors_for_slot_def example_active_tutors
      is_available_for_slot_def example_exceptions_a example_bookings_a
      availability_for_day_def example_availability_a Let_def slot_minutes_def
      default_config_def block_15_17_def booking_1530_def booking_1630_def calendar_defs)

lemma example_candidates_1500:
  "available_tutors_for_slot example_db 1 (combine monday (mk_time 15 0 0))
     (combine monday (mk_time 15 0 0) + timedelta_minutes (slot_minutes default_config))
   = [tutor_a, tutor_b]"
  by (simp add: available_tutors_for_slot_def example_active_tutors
      is_available_for_slot_def example_exceptions_a example_bookings_a
      example_exceptions_b example_bookings_b overlaps_def
      availability_for_day_def example_availability_a example_availability_b Let_def
      slot_minutes_def default_config_def block_15_17_def block_all_day_def
      booking_1530_def booking_1630_def tuesday_off_def calendar_defs)

lemma example_pick_single: "pick_fair_tutor example_db [tutor_a] r = Inr (Some tutor_a)"
  using pick_fair_tutor_nonempty(2)[of "[tutor_a]" example_db r] by simp

lemma example_pick_pair:
  "pick_fair_tutor example_db [tutor_a, tutor_b] r = Inr (Some tutor_b)"
  using pick_fair_tutor_nonempty(2)[of "[tutor_a, tutor_b]" example_db r]
  by (simp add: example_load_a example_load_b)

lemma example_duplicate_1630:
  "list_ex (\<lambda>row. B_tutor_id row = T_id tutor_a
                   \<and> B_start_time row = combine monday (mk_time 16 30 0))
     (bookings example_db)"
  by (simp add: example_defs)

text \<open>Subject 2 on the example Monday at 16:30: tutor 1 alone teaches it and is free,
  the earlier booking of that slot being canceled; its row still holds the key, and
  the insert is refused.\<close>

theorem book_commit_failure_report_witness:
  "book_validate saturday_noon example_db form_1630 =
     Inr (2, \<lparr>S_id = 2, S_name = ''IM2''\<rparr>, ''Sam'', ''5550000004'', monday, mk_time 16 30 0)
   \<and> pick_fair_tutor example_db
        (available_tutors_for_slot example_db 2 (combine monday (mk_time 16 30 0))
           (combine monday (mk_time 16 30 0) + timedelta_minutes (slot_minutes default_config)))
        (random_draw saturday_noon) = Inr (Some tutor_a)
   \<and> \<not> storage_fault saturday_noon
   \<and> list_ex (\<lambda>row. B_tutor_id row = T_id tutor_a
                     \<and> B_start_time row = combine monday (mk_time 16 30 0))
        (bookings example_db)
   \<and> book default_config saturday_noon example_db form_1630 =
       (example_db,
        Booking_page ''Unable to confirm booking. Please try another time slot.'' ''danger'')"
proof -
  have p: "pick_fair_tutor example_db
        (available_tutors_for_slot example_db 2 (combine monday (mk_time 16 30 0))
           (combine monday (mk_time 16 30 0) + timedelta_minutes (slot_minutes default_config)))
        (random_draw saturday_noon) = Inr (Some tutor_a)"
    by (simp only: example_candidates_1630 example_pick_single)
  have f: "\<not> storage_fault saturday_noon" by (simp add: saturday_noon_def)
  from book_commit_failure_report[OF example_validate_1630, of default_config,
      unfolded Let_def] p f example_duplicate_1630
  have "book default_config saturday_noon example_db form_1630 =
       (example_db,
        Booking_page ''Unable to confirm booking. Please try another time slot.'' ''danger'')"
    by blast
  with example_validate_1630 p f example_duplicate_1630 show ?thesis by blast
qed

text \<open>C7 as stated fails in one part: the report of a uniqueness violation is not
  distinct from the report of another persistence failure. The first request fails on
  the constraint (tutor 1 has a row that starts at 16:30), the second on a storage
  fault with no row of any tutor at 15:00, and both get the same page.\<close>

theorem book_failure_reports_coincide_counterexample:
  "commit_booking example_db (storage_fault saturday_noon)
      \<lparr>B_id = next_booking_id example_db, B_tutor_id = T_id tutor_a,
       B_subject_id = Some 2, B_student_name = ''Sam'', B_student_phone = ''5550000004'',
       B_start_time = combine monday (mk_time 16 30 0),
       B_end_time = combine monday (mk_time 16 30 0)
                      + timedelta_minutes (slot_minutes default_config),
       B_created_at = utcnow saturday_noon, B_is_canceled = False,
       B_canceled_at = None, B_cancel_reason = None\<rparr> = Inl IntegrityError
   \<and> commit_booking example_db (storage_fault (saturday_noon\<lparr>storage_fault := True\<rparr>))
      \<lparr>B_id = next_booking_id example_db, B_tutor_id = T_id tutor_b,
       B_subject_id = Some 1, B_student_name = ''Sam'', B_student_phone = ''5550000004'',
       B_start_time = combine monday (mk_time 15 0 0),
       B_end_time = combine monday (mk_time 15 0 0)
                      + timedelta_minutes (slot_minutes default_config),
       B_created_at = utcnow saturday_noon, B_is_canceled = False,
       B_canceled_at = None, B_cancel_reason = None\<rparr> = Inl OperationalError
   \<and> \<not> list_ex (\<lambda>row. B_start_time row = combine monday (mk_time 15 0 0))
          (bookings example_db)
   \<and> book default_config saturday_noon example_db form_1630 =
       (example_db,
        Booking_page ''Unable to confirm booking. Please try another time slot.'' ''danger'')
   \<and> book default_config (saturday_noon\<lparr>storage_fault := True\<rparr>) example_db form_1500 =
       (example_db,
        Booking_page ''Unable to confirm booking. Please try another time slot.'' ''danger'')"
proof -
  have c1: "commit_booking example_db (storage_fault saturday_noon)
      \<lparr>B_id = next_booking_id example_db, B_tutor_id = T_id tutor_a,
       B_subject_id = Some 2, B_student_name = ''Sam'', B_student_phone = ''5550000004'',
       B_start_time = combine monday (mk_time 16 30 0),
       B_end_time = combine monday (mk_time 16 30 0)
                      + timedelta_minutes (slot_minutes default_config),
       B_created_at = utcnow saturday_noon, B_is_canceled = False,
       B_canceled_at = None, B_cancel_reason = None\<rparr> = Inl IntegrityError"
    using example_duplicate_1630
    by (intro commit_booking_duplicate) (simp_all add: saturday_noon_def)
  have c2: "commit_booking example_db (storage_fault (saturday_noon\<lparr>storage_fault := True\<rparr>))
      \<lparr>B_id = next_booking_id example_db, B_tutor_id = T_id tutor_b,
       B_subject_id = Some 1, B_student_name = ''Sam'', B_student_phone = ''5550000004'',
       B_start_time = combine monday (mk_time 15 0 0),
       B_end_time = combine monday (mk_time 15 0 0)
                      + timedelta_minutes (slot_minutes default_config),
       B_created_at = utcnow saturday_noon, B_is_canceled = False,
       B_canceled_at = None, B_cancel_reason = None\<rparr> = Inl OperationalError"
    by (intro commit_booking_fault) simp
  have n: "\<not> list_ex (\<lambda>row. B_start_time row = combine monday (mk_time 15 0 0))
          (bookings example_db)"
    by (simp add: example_defs calendar_defs)
  have b1: "book default_config saturday_noon example_db form_1630 =
       (example_db,
        Booking_page ''Unable to confirm booking. Please try another time slot.'' ''danger'')"
    by (simp only: book_after_validate[OF example_validate_1630] example_candidates_1630
        example_pick_single) (simp add: c1)
  have b2: "book default_config (saturday_noon\<lparr>storage_fault := True\<rparr>) example_db form_1500 =
       (example_db,
        Booking_page ''Unable to confirm booking. Please try another time slot.'' ''danger'')"
    by (simp only: book_after_validate[OF example_validate_1500] example_candidates_1500
        example_pick_pair) (simp add: commit_booking_fault)
  from c1 c2 n b1 b2 show ?thesis by blast
qed


section \<open>No double booking\<close>

lemma intervals_overlap_common_instant:
  "intervals_overlap a b \<longleftrightarrow>
     (\<exists>x. B_start_time a \<le> x \<and> x < B_end_time a \<and> B_start_time b \<le> x \<and> x < B_end_time b)"
proof
  assume "intervals_overlap a b"
  then have "B_start_time a \<le> max (B_start_time a) (B_start_time b)
      \<and> max (B_start_time a) (B_start_time b) < B_end_time a
      \<and> B_start_time b \<le> max (B_start_time a) (B_start_time b)
      \<and> max (B_start_time a) (B_start_time b) < B_end_time b"
    by (simp add: intervals_overlap_def)
  then show "\<exists>x. B_start_time a \<le> x \<and> x < B_end_time a \<and> B_start_time b \<le> x \<and> x < B_end_time b"
    by (rule exI)
next
  assume "\<exists>x. B_start_time a \<le> x \<and> x < B_end_time a \<and> B_start_time b \<le> x \<and> x < B_end_time b"
  then show "intervals_overlap a b"
    by (auto simp: intervals_overlap_def)
qed

text \<open>The test of \<open>is_available_for_slot\<close> holds of every pair of intervals that
  overlap, and is the overlap of two intervals that are not empty.\<close>

lemma intervals_overlap_test:
  "intervals_overlap a b \<Longrightarrow> B_start_time a < B_end_time b \<and> B_end_time a > B_start_time b"
  by (auto simp: intervals_overlap_def)

lemma test_intervals_overlap:
  "B_start_time a < B_end_time a \<Longrightarrow> B_start_time b < B_end_time b \<Longrightarrow>
   B_start_time a < B_end_time b \<and> B_end_time a > B_start_time b \<Longrightarrow> intervals_overlap a b"
  by (auto simp: intervals_overlap_def)

lemma active_overlap_free_sorted_wrt:
  "active_overlap_free bs =
     sorted_wrt (\<lambda>b c. B_is_canceled b \<or> B_is_canceled c \<or> \<not> intervals_overlap b c) bs"
  by (induction bs) (auto simp: list_all_iff)

lemma active_overlap_free_append:
  "active_overlap_free (bs @ [b]) \<longleftrightarrow>
     active_overlap_free bs
     \<and> (\<forall>c \<in> set bs. B_is_canceled c \<or> B_is_canceled b \<or> \<not> intervals_overlap c b)"
  by (simp add: active_overlap_free_sorted_wrt sorted_wrt_append)

lemma active_overlap_free_map:
  assumes "\<And>b. B_is_canceled b \<Longrightarrow> B_is_canceled (f b)"
    and "\<And>b. B_start_time (f b) = B_start_time b"
    and "\<And>b. B_end_time (f b) = B_end_time b"
    and "active_overlap_free bs"
  shows "active_overlap_free (map f bs)"
  using assms(4)
proof (induction bs)
  case Nil
  then show ?case by simp
next
  case (Cons b bs)
  have ov: "intervals_overlap (f x) (f y) = intervals_overlap x y" for x y
    by (simp add: intervals_overlap_def assms(2,3))
  from Cons show ?case
    using assms(1) by (auto simp: list_all_iff ov)
qed

lemma active_overlap_free_no_common_instant:
  "active_overlap_free bs \<longleftrightarrow>
     (\<forall>i j. i < j \<and> j < length bs \<and> \<not> B_is_canceled (bs ! i) \<and> \<not> B_is_canceled (bs ! j)
        \<longrightarrow> \<not> (\<exists>x. B_start_time (bs ! i) \<le> x \<and> x < B_end_time (bs ! i)
                    \<and> B_start_time (bs ! j) \<le> x \<and> x < B_end_time (bs ! j)))"
  unfolding active_overlap_free_sorted_wrt sorted_wrt_iff_nth_less
    intervals_overlap_common_instant[symmetric]
  by blast

lemma Tutor_bookings_same_id:
  "T_id tutor = T_id tutor' \<Longrightarrow> Tutor_bookings db tutor = Tutor_bookings db tutor'"
  by (simp add: Tutor_bookings_def)

lemma is_available_no_active_overlap:
  assumes "is_available_for_slot db tutor (B_start_time booking) (B_end_time booking)"
    and "c \<in> set (Tutor_bookings db tutor)"
  shows "B_is_canceled c \<or> \<not> intervals_overlap c booking"
proof -
  from assms(1)
  have "\<not> booking_blocks (Tutor_bookings db tutor) (B_start_time booking) (B_end_time booking)"
    by (auto simp: is_available_for_slot_def Let_def split: if_splits)
  with assms(2) have "B_is_canceled c
      \<or> \<not> (B_start_time c < B_end_time booking \<and> B_end_time c > B_start_time booking)"
    unfolding booking_blocks_iff by blast
  then show ?thesis using intervals_overlap_test[of c booking] by blast
qed

lemma book_preserves:
  assumes "active_overlap_free (Tutor_bookings db tutor)"
  shows "active_overlap_free (Tutor_bookings (fst (book cfg env db form)) tutor)"
proof -
  from book_database[of cfg env db form]
  consider "fst (book cfg env db form) = db"
    | chosen booking where "fst (book cfg env db form) = db\<lparr>bookings := bookings db @ [booking]\<rparr>"
      "B_tutor_id booking = T_id chosen" "\<not> B_is_canceled booking"
      "is_available_for_slot db chosen (B_start_time booking) (B_end_time booking)"
    by blast
  then show ?thesis
  proof cases
    case 1
    with assms show ?thesis by simp
  next
    case 2
    show ?thesis
    proof (cases "T_id chosen = T_id tutor")
      case True
      then have same: "Tutor_bookings db chosen = Tutor_bookings db tutor"
        by (rule Tutor_bookings_same_id)
      have app: "Tutor_bookings (fst (book cfg env db form)) tutor
                   = Tutor_bookings db tutor @ [booking]"
        using 2(1,2) True by (simp add: Tutor_bookings_def)
      have "\<forall>c \<in> set (Tutor_bookings db tutor).
              B_is_canceled c \<or> B_is_canceled booking \<or> \<not> intervals_overlap c booking"
        using is_available_no_active_overlap[OF 2(4)] same by auto
      with assms app show ?thesis by (simp add: active_overlap_free_append)
    next
      case False
      then have "Tutor_bookings (fst (book cfg env db form)) tutor = Tutor_bookings db tutor"
        using 2(1,2) by (simp add: Tutor_bookings_def)
      with assms show ?thesis by simp
    qed
  qed
qed

lemma cancel_preserves:
  assumes "active_overlap_free (Tutor_bookings db tutor)"
  shows "active_overlap_free
           (Tutor_bookings (fst (cancel_booking utc_now fault db session_tutor_id booking_id raw_reason))
              tutor)"
proof -
  let ?upd = "\<lambda>row. if B_id row = booking_id
                     then row\<lparr>B_is_canceled := True,
                              B_canceled_at := Some utc_now,
                              B_cancel_reason :=
                                (if strip raw_reason = [] then None
                                 else Some (take 255 (strip raw_reason)))\<rparr>
                     else row"
  from cancel_booking_database[of utc_now fault db session_tutor_id booking_id raw_reason]
  consider "fst (cancel_booking utc_now fault db session_tutor_id booking_id raw_reason) = db"
    | "fst (cancel_booking utc_now fault db session_tutor_id booking_id raw_reason)
         = db\<lparr>bookings := map ?upd (bookings db)\<rparr>"
    by blast
  then show ?thesis
  proof cases
    case 1
    with assms show ?thesis by simp
  next
    case 2
    have "Tutor_bookings (db\<lparr>bookings := map ?upd (bookings db)\<rparr>) tutor
            = map ?upd (Tutor_bookings db tutor)"
      by (simp add: Tutor_bookings_def filter_map comp_def if_distrib cong: if_cong)
    moreover have "active_overlap_free (map ?upd (Tutor_bookings db tutor))"
      by (rule active_overlap_free_map[OF _ _ _ assms]) simp_all
    ultimately show ?thesis using 2 by simp
  qed
qed

lemma apply_operation_preserves:
  "active_overlap_free (Tutor_bookings db tutor) \<Longrightarrow>
   active_overlap_free (Tutor_bookings (apply_operation db op) tutor)"
  by (cases op) (simp_all add: book_preserves cancel_preserves)

text \<open>
  C1. For every tutor: if no two of the tutor's non-canceled bookings overlap, then
  after any sequence of \<open>book\<close> and \<open>cancel_booking\<close> requests, served one after the
  other, no two of the tutor's non-canceled bookings overlap: no instant lies in the
  intervals \<open>[start, end)\<close> of two of them.
\<close>

theorem no_double_booking_preserved:
  assumes "active_overlap_free (Tutor_bookings db tutor)"
  shows "active_overlap_free (Tutor_bookings (run_operations db ops) tutor)
     \<and> (\<forall>i j. i < j \<and> j < length (Tutor_bookings (run_operations db ops) tutor)
           \<and> \<not> B_is_canceled (Tutor_bookings (run_operations db ops) tutor ! i)
           \<and> \<not> B_is_canceled (Tutor_bookings (run_operations db ops) tutor ! j)
         \<longrightarrow> \<not> (\<exists>x. B_start_time (Tutor_bookings (run_operations db ops) tutor ! i) \<le> x
                     \<and> x < B_end_time (Tutor_bookings (run_operations db ops) tutor ! i)
                     \<and> B_start_time (Tutor_bookings (run_operations db ops) tutor ! j) \<le> x
                     \<and> x < B_end_time (Tutor_bookings (run_operations db ops) tutor ! j)))"
proof -
  have "active_overlap_free (Tutor_bookings (run_operations db ops) tutor)"
    using assms
  proof (induction ops arbitrary: db)
    case Nil
    then show ?case by simp
  next
    case (Cons op ops)
    from Cons.prems have "active_overlap_free (Tutor_bookings (apply_operation db op) tutor)"
      by (rule apply_operation_preserves)
    then show ?case by (simp add: Cons.IH)
  qed
  then show ?thesis
    using active_overlap_free_no_common_instant[of "Tutor_bookings (run_operations db ops) tutor"]
    by blast
qed


lemmas route_defs =
  book_def book_validate_def strip_def isspace_def normalize_phone_def isdigit_def
  booking_window_status_def minimum_bookable_date_def available_tutors_for_slot_def
  active_tutors_for_subject_def is_available_for_slot_def Tutor_exceptions_def
  Tutor_bookings_def availability_for_day_def Tutor_weekly_availability_def overlaps_def
  is_full_day_def pick_fair_tutor_def booking_counts_of_def random_choice_def
  commit_booking_def next_booking_id_def slot_minutes_def cancel_booking_def
  get_current_tutor_def Let_def

lemma example_book_2_1500:
  "fst (book default_config saturday_noon example_db (form_2_at (mk_time 15 0 0))) =
     example_db\<lparr>bookings :=
       [booking_1530, booking_1630, booking_new 3 (mk_time 15 0 0) (mk_time 15 30 0)]\<rparr>"
  by (simp add: route_defs example_defs form_2_at_def booking_new_def calendar_defs)

lemma example_book_2_1515:
  "fst (book default_config saturday_noon
          (example_db\<lparr>bookings :=
             [booking_1530, booking_1630, booking_new 3 (mk_time 15 0 0) (mk_time 15 30 0)]\<rparr>)
          (form_2_at (mk_time 15 15 0))) =
     example_db\<lparr>bookings :=
       [booking_1530, booking_1630, booking_new 3 (mk_time 15 0 0) (mk_time 15 30 0)]\<rparr>"
  by (simp add: route_defs example_defs form_2_at_def booking_new_def calendar_defs)

lemma example_book_2_1600:
  "fst (book default_config saturday_noon
          (example_db\<lparr>bookings :=
             [booking_1530, booking_1630, booking_new 3 (mk_time 15 0 0) (mk_time 15 30 0)]\<rparr>)
          (form_2_at (mk_time 16 0 0))) =
     example_db\<lparr>bookings :=
       [booking_1530, booking_1630, booking_new 3 (mk_time 15 0 0) (mk_time 15 30 0),
        booking_new 4 (mk_time 16 0 0) (mk_time 16 30 0)]\<rparr>"
  by (simp add: route_defs example_defs form_2_at_def booking_new_def calendar_defs)

lemma example_cancel_3:
  "fst (cancel_booking (combine (monday - 1) 0) False
          (example_db\<lparr>bookings :=
             [booking_1530, booking_1630, booking_new 3 (mk_time 15 0 0) (mk_time 15 30 0),
              booking_new 4 (mk_time 16 0 0) (mk_time 16 30 0)]\<rparr>)
          (Some 1) 3 ''  '') =
     example_db\<lparr>bookings :=
       [booking_1530, booking_1630,
        (booking_new 3 (mk_time 15 0 0) (mk_time 15 30 0))
          \<lparr>B_is_canceled := True, B_canceled_at := Some (combine (monday - 1) 0),
           B_cancel_reason := None\<rparr>,
        booking_new 4 (mk_time 16 0 0) (mk_time 16 30 0)]\<rparr>"
  by (simp add: route_defs example_defs booking_new_def)

text \<open>On the example database a student books subject 2, which tutor 1 alone teaches,
  for Monday 15:00; a request for 15:15, which overlaps that booking and the one at
  15:30, is refused; a request for 16:00 is served; tutor 1 then cancels the booking at
  15:00. Tutor 1 held three active bookings, 15:00, 15:30 and 16:00, each ending where
  the next starts, and is left with two.\<close>

theorem no_double_booking_preserved_witness:
  "active_overlap_free (Tutor_bookings example_db tutor_a)
   \<and> Tutor_bookings (run_operations example_db
        [Book default_config saturday_noon (form_2_at (mk_time 15 0 0)),
         Book default_config saturday_noon (form_2_at (mk_time 15 15 0)),
         Book default_config saturday_noon (form_2_at (mk_time 16 0 0))]) tutor_a
      = [booking_1530, booking_1630,
         booking_new 3 (mk_time 15 0 0) (mk_time 15 30 0),
         booking_new 4 (mk_time 16 0 0) (mk_time 16 30 0)]
   \<and> active_overlap_free (Tutor_bookings (run_operations example_db
        [Book default_config saturday_noon (form_2_at (mk_time 15 0 0)),
         Book default_config saturday_noon (form_2_at (mk_time 15 15 0)),
         Book default_config saturday_noon (form_2_at (mk_time 16 0 0))]) tutor_a)
   \<and> Tutor_bookings (run_operations example_db
        [Book default_config saturday_noon (form_2_at (mk_time 15 0 0)),
         Book default_config saturday_noon (form_2_at (mk_time 15 15 0)),
         Book default_config saturday_noon (form_2_at (mk_time 16 0 0)),
         Cancel (combine (monday - 1) 0) False (Some 1) 3 ''  '']) tutor_a
      = [booking_1530, booking_1630,
         (booking_new 3 (mk_time 15 0 0) (mk_time 15 30 0))
           \<lparr>B_is_canceled := True, B_canceled_at := Some (combine (monday - 1) 0),
            B_cancel_reason := None\<rparr>,
         booking_new 4 (mk_time 16 0 0) (mk_time 16 30 0)]
   \<and> map B_is_canceled (Tutor_bookings (run_operations example_db
        [Book default_config saturday_noon (form_2_at (mk_time 15 0 0)),
         Book default_config saturday_noon (form_2_at (mk_time 15 15 0)),
         Book default_config saturday_noon (form_2_at (mk_time 16 0 0))]) tutor_a)
      = [False, True, False, False]
   \<and> active_overlap_free (Tutor_bookings (run_operations example_db
        [Book default_config saturday_noon (form_2_at (mk_time 15 0 0)),
         Book default_config saturday_noon (form_2_at (mk_time 15 15 0)),
         Book default_config saturday_noon (form_2_at (mk_time 16 0 0)),
         Cancel (combine (monday - 1) 0) False (Some 1) 3 ''  '']) tutor_a)"
proof -
  let ?books = "[Book default_config saturday_noon (form_2_at (mk_time 15 0 0)),
         Book default_config saturday_noon (form_2_at (mk_time 15 15 0)),
         Book default_config saturday_noon (form_2_at (mk_time 16 0 0))]"
  let ?all = "[Book default_config saturday_noon (form_2_at (mk_time 15 0 0)),
         Book default_config saturday_noon (form_2_at (mk_time 15 15 0)),
         Book default_config saturday_noon (form_2_at (mk_time 16 0 0)),
         Cancel (combine (monday - 1) 0) False (Some 1) 3 ''  '']"
  have h: "active_overlap_free (Tutor_bookings example_db tutor_a)"
    by (simp add: example_bookings_a booking_1530_def booking_1630_def)
  have r1: "run_operations example_db ?books =
     example_db\<lparr>bookings :=
       [booking_1530, booking_1630, booking_new 3 (mk_time 15 0 0) (mk_time 15 30 0),
        booking_new 4 (mk_time 16 0 0) (mk_time 16 30 0)]\<rparr>"
    by (simp add: example_book_2_1500 example_book_2_1515 example_book_2_1600)
  have r2: "run_operations example_db ?all =
     example_db\<lparr>bookings :=
       [booking_1530, booking_1630,
        (booking_new 3 (mk_time 15 0 0) (mk_time 15 30 0))
          \<lparr>B_is_canceled := True, B_canceled_at := Some (combine (monday - 1) 0),
           B_cancel_reason := None\<rparr>,
        booking_new 4 (mk_time 16 0 0) (mk_time 16 30 0)]\<rparr>"
    by (simp add: example_book_2_1500 example_book_2_1515 example_book_2_1600
        example_cancel_3)
  have t1: "Tutor_bookings (run_operations example_db ?books) tutor_a
      = [booking_1530, booking_1630,
         booking_new 3 (mk_time 15 0 0) (mk_time 15 30 0),
         booking_new 4 (mk_time 16 0 0) (mk_time 16 30 0)]"
    by (subst r1) (simp add: Tutor_bookings_def tutor_a_def booking_1530_def
        booking_1630_def booking_new_def)
  have t2: "Tutor_bookings (run_operations example_db ?all) tutor_a
      = [booking_1530, booking_1630,
         (booking_new 3 (mk_time 15 0 0) (mk_time 15 30 0))
           \<lparr>B_is_canceled := True, B_canceled_at := Some (combine (monday - 1) 0),
            B_cancel_reason := None\<rparr>,
         booking_new 4 (mk_time 16 0 0) (mk_time 16 30 0)]"
    by (subst r2) (simp add: Tutor_bookings_def tutor_a_def booking_1530_def
        booking_1630_def booking_new_def)
  have c: "map B_is_canceled (Tutor_bookings (run_operations example_db ?books) tutor_a)
      = [False, True, False, False]"
    by (subst t1) (simp add: booking_1530_def booking_1630_def booking_new_def)
  from no_double_booking_preserved[OF h, of ?books] no_double_booking_preserved[OF h, of ?all]
    h t1 t2 c
  show ?thesis by blast
qed


section \<open>Open slots of a date\<close>

lemma dom_setdefault_append:
  "dom (setdefault_append slots start_dt tutor) = insert start_dt (dom slots)"
  by (simp add: setdefault_append_def)

lemma setdefault_append_no_empty:
  "(\<And>k. slots k \<noteq> Some []) \<Longrightarrow> setdefault_append slots start_dt tutor k \<noteq> Some []"
  by (simp add: setdefault_append_def)

lemma dom_collect_slots:
  "dom (collect_slots db tutor generated slots) =
     dom slots \<union> {start_dt. \<exists>end_dt. (start_dt, end_dt) \<in> set generated
                                \<and> is_available_for_slot db tutor start_dt end_dt}"
proof (induction generated arbitrary: slots)
  case Nil
  then show ?case by simp
next
  case (Cons slot rest)
  obtain s e where slot: "slot = (s, e)" by (cases slot)
  show ?case
    unfolding slot by (auto simp: Cons.IH dom_setdefault_append)
qed

lemma collect_slots_no_empty:
  "(\<And>k. slots k \<noteq> Some []) \<Longrightarrow> collect_slots db tutor generated slots k \<noteq> Some []"
proof (induction generated arbitrary: slots k)
  case Nil
  then show ?case by simp
next
  case (Cons slot rest)
  obtain s e where slot: "slot = (s, e)" by (cases slot)
  show ?case
    unfolding slot using Cons.prems
    by (auto intro!: Cons.IH simp: setdefault_append_no_empty)
qed

lemma collect_blocks_returns:
  "1 \<le> mins \<Longrightarrow> \<exists>slots'. collect_blocks db tutor d mins blocks slots = Some slots'"
  by (induction blocks arbitrary: slots) (simp_all add: generate_slots_returns)

lemma dom_collect_blocks:
  "collect_blocks db tutor d mins blocks slots = Some slots' \<Longrightarrow>
   dom slots' =
     dom slots \<union> {start_dt. \<exists>block \<in> set blocks. \<exists>generated end_dt.
                     generate_slots block d mins = Some generated
                     \<and> (start_dt, end_dt) \<in> set generated
                     \<and> is_available_for_slot db tutor start_dt end_dt}"
proof (induction blocks arbitrary: slots)
  case Nil
  then show ?case by simp
next
  case (Cons block rest)
  from Cons.prems obtain generated where g: "generate_slots block d mins = Some generated"
    and rest: "collect_blocks db tutor d mins rest (collect_slots db tutor generated slots)
                 = Some slots'"
    by (auto split: option.splits)
  from Cons.IH[OF rest] show ?case
    by (auto simp: dom_collect_slots g)
qed

lemma collect_blocks_no_empty:
  "collect_blocks db tutor d mins blocks slots = Some slots' \<Longrightarrow>
   (\<And>k. slots k \<noteq> Some []) \<Longrightarrow> slots' k \<noteq> Some []"
proof (induction blocks arbitrary: slots)
  case Nil
  then show ?case by simp
next
  case (Cons block rest)
  from Cons.prems(1) obtain generated where
    rest: "collect_blocks db tutor d mins rest (collect_slots db tutor generated slots)
             = Some slots'"
    by (auto split: option.splits)
  show ?case
    by (rule Cons.IH[OF rest]) (rule collect_slots_no_empty, rule Cons.prems(2))
qed

lemma collect_tutors_returns:
  "1 \<le> mins \<Longrightarrow> \<exists>slots'. collect_tutors db d mins wd ts slots = Some slots'"
proof (induction ts arbitrary: slots)
  case Nil
  then show ?case by simp
next
  case (Cons tutor rest)
  from collect_blocks_returns[OF Cons.prems]
  obtain mid where "collect_blocks db tutor d mins (availability_for_day db tutor wd) slots
                      = Some mid"
    by blast
  then show ?case
    using Cons.IH[OF Cons.prems] by (simp add: Let_def)
qed

lemma dom_collect_tutors:
  "collect_tutors db d mins wd ts slots = Some slots' \<Longrightarrow>
   dom slots' =
     dom slots \<union> {start_dt. \<exists>tutor \<in> set ts.
                     \<exists>block \<in> set (availability_for_day db tutor wd). \<exists>generated end_dt.
                       generate_slots block d mins = Some generated
                       \<and> (start_dt, end_dt) \<in> set generated
                       \<and> is_available_for_slot db tutor start_dt end_dt}"
proof (induction ts arbitrary: slots)
  case Nil
  then show ?case by simp
next
  case (Cons tutor rest)
  show ?case
  proof (cases "availability_for_day db tutor wd = []")
    case True
    with Cons.prems have "collect_tutors db d mins wd rest slots = Some slots'"
      by (simp add: Let_def)
    from Cons.IH[OF this] True show ?thesis by auto
  next
    case False
    with Cons.prems obtain mid where
      mid: "collect_blocks db tutor d mins (availability_for_day db tutor wd) slots = Some mid"
      and rest: "collect_tutors db d mins wd rest mid = Some slots'"
      by (auto simp: Let_def split: option.splits)
    from Cons.IH[OF rest] dom_collect_blocks[OF mid] show ?thesis
      by auto
  qed
qed

lemma collect_tutors_no_empty:
  "collect_tutors db d mins wd ts slots = Some slots' \<Longrightarrow>
   (\<And>k. slots k \<noteq> Some []) \<Longrightarrow> slots' k \<noteq> Some []"
proof (induction ts arbitrary: slots)
  case Nil
  then show ?case by simp
next
  case (Cons tutor rest)
  show ?case
  proof (cases "availability_for_day db tutor wd = []")
    case True
    with Cons.prems(1) have "collect_tutors db d mins wd rest slots = Some slots'"
      by (simp add: Let_def)
    from Cons.IH[OF this Cons.prems(2)] show ?thesis .
  next
    case False
    with Cons.prems(1) obtain mid where
      mid: "collect_blocks db tutor d mins (availability_for_day db tutor wd) slots = Some mid"
      and rest: "collect_tutors db d mins wd rest mid = Some slots'"
      by (auto simp: Let_def split: option.splits)
    show ?thesis
      by (rule Cons.IH[OF rest]) (rule collect_blocks_no_empty[OF mid], rule Cons.prems(2))
  qed
qed

lemma tutors_at_setdefault_append:
  "tutors_at (setdefault_append slots start_dt tutor) k =
     (if k = start_dt then tutors_at slots start_dt @ [tutor] else tutors_at slots k)"
  by (simp add: tutors_at_def setdefault_append_def)

lemma tutors_at_collect_slots:
  "set (tutors_at (collect_slots db tutor generated slots) k) =
     set (tutors_at slots k)
     \<union> {t. t = tutor \<and> (\<exists>end_dt. (k, end_dt) \<in> set generated
                          \<and> is_available_for_slot db tutor k end_dt)}"
proof (induction generated arbitrary: slots)
  case Nil
  then show ?case by simp
next
  case (Cons slot rest)
  obtain s e where slot: "slot = (s, e)" by (cases slot)
  show ?case
    unfolding slot by (auto simp: Cons.IH tutors_at_setdefault_append)
qed

lemma tutors_at_collect_blocks:
  "collect_blocks db tutor d mins blocks slots = Some slots' \<Longrightarrow>
   set (tutors_at slots' k) =
     set (tutors_at slots k)
     \<union> {t. t = tutor \<and> (\<exists>block \<in> set blocks. \<exists>generated end_dt.
                          generate_slots block d mins = Some generated
                          \<and> (k, end_dt) \<in> set generated
                          \<and> is_available_for_slot db tutor k end_dt)}"
proof (induction blocks arbitrary: slots)
  case Nil
  then show ?case by simp
next
  case (Cons block rest)
  from Cons.prems obtain generated where g: "generate_slots block d mins = Some generated"
    and rest: "collect_blocks db tutor d mins rest (collect_slots db tutor generated slots)
                 = Some slots'"
    by (auto split: option.splits)
  from Cons.IH[OF rest] show ?case
    by (auto simp: tutors_at_collect_slots g)
qed

lemma tutors_at_collect_tutors:
  "collect_tutors db d mins wd ts slots = Some slots' \<Longrightarrow>
   set (tutors_at slots' k) =
     set (tutors_at slots k)
     \<union> {tutor \<in> set ts. \<exists>block \<in> set (availability_for_day db tutor wd).
            \<exists>generated end_dt.
              generate_slots block d mins = Some generated
              \<and> (k, end_dt) \<in> set generated
              \<and> is_available_for_slot db tutor k end_dt}"
proof (induction ts arbitrary: slots)
  case Nil
  then show ?case by simp
next
  case (Cons tutor rest)
  show ?case
  proof (cases "availability_for_day db tutor wd = []")
    case True
    with Cons.prems have "collect_tutors db d mins wd rest slots = Some slots'"
      by (simp add: Let_def)
    from Cons.IH[OF this] True show ?thesis by auto
  next
    case False
    with Cons.prems obtain mid where
      mid: "collect_blocks db tutor d mins (availability_for_day db tutor wd) slots = Some mid"
      and rest: "collect_tutors db d mins wd rest mid = Some slots'"
      by (auto simp: Let_def split: option.splits)
    from Cons.IH[OF rest] tutors_at_collect_blocks[OF mid] show ?thesis
      by auto
  qed
qed

lemma set_active_tutors_for_subject:
  "set (active_tutors_for_subject db subject_id) =
     {tutor \<in> set (tutors db). T_is_active tutor
        \<and> (\<exists>ts \<in> set (tutor_subjects db).
              TS_tutor_id ts = T_id tutor \<and> TS_subject_id ts = subject_id)}"
  by (auto simp: active_tutors_for_subject_def)

lemma set_availability_for_day:
  "set (availability_for_day db tutor wd) =
     {block \<in> set (weekly_availability db).
        WA_tutor_id block = T_id tutor \<and> WA_day_of_week block = wd}"
  by (auto simp: availability_for_day_def Tutor_weekly_availability_def)

text \<open>
  C8. With a configured slot length of at least one minute \<open>collect_open_slots\<close>
  returns a mapping. A tutor is eligible for a slot start when the tutor's row is
  active, an association row gives the tutor the subject, and some weekly block of the
  tutor on the date's weekday generates, for the date, a slot with that start for which
  \<open>is_available_for_slot\<close> holds for the tutor. Whenever \<open>collect_open_slots\<close> returns a
  mapping, for every subject and date, its keys are exactly the slot starts for which
  some tutor is eligible, no key is mapped to the empty list, and the tutors listed
  under a key are exactly the tutors eligible for it.
\<close>

theorem collect_open_slots_keys:
  "let eligible = (\<lambda>tutor start_dt.
         tutor \<in> set (tutors db) \<and> T_is_active tutor
         \<and> (\<exists>ts \<in> set (tutor_subjects db).
               TS_tutor_id ts = T_id tutor \<and> TS_subject_id ts = subject_id)
         \<and> (\<exists>block \<in> set (weekly_availability db).
               WA_tutor_id block = T_id tutor
               \<and> WA_day_of_week block = weekday target_date
               \<and> (\<exists>generated end_dt.
                     generate_slots block target_date (slot_minutes cfg) = Some generated
                     \<and> (start_dt, end_dt) \<in> set generated
                     \<and> is_available_for_slot db tutor start_dt end_dt)))
   in (1 \<le> slot_minutes cfg \<longrightarrow>
         (\<exists>slots. collect_open_slots cfg db subject_id target_date = Some slots))
      \<and> (\<forall>slots. collect_open_slots cfg db subject_id target_date = Some slots \<longrightarrow>
            dom slots = {start_dt. \<exists>tutor. eligible tutor start_dt}
            \<and> (\<forall>start_dt \<in> dom slots. slots start_dt \<noteq> Some [])
            \<and> (\<forall>start_dt listed. slots start_dt = Some listed \<longrightarrow>
                  set listed = {tutor. eligible tutor start_dt}))"
proof -
  let ?eligible = "\<lambda>tutor start_dt.
         tutor \<in> set (tutors db) \<and> T_is_active tutor
         \<and> (\<exists>ts \<in> set (tutor_subjects db).
               TS_tutor_id ts = T_id tutor \<and> TS_subject_id ts = subject_id)
         \<and> (\<exists>block \<in> set (weekly_availability db).
               WA_tutor_id block = T_id tutor
               \<and> WA_day_of_week block = weekday target_date
               \<and> (\<exists>generated end_dt.
                     generate_slots block target_date (slot_minutes cfg) = Some generated
                     \<and> (start_dt, end_dt) \<in> set generated
                     \<and> is_available_for_slot db tutor start_dt end_dt))"
  have ret: "\<exists>slots. collect_open_slots cfg db subject_id target_date = Some slots"
    if "1 \<le> slot_minutes cfg"
    using that by (simp add: collect_open_slots_def Let_def collect_tutors_returns)
  have props: "dom slots = {start_dt. \<exists>tutor. ?eligible tutor start_dt}
      \<and> (\<forall>start_dt \<in> dom slots. slots start_dt \<noteq> Some [])
      \<and> (\<forall>start_dt listed. slots start_dt = Some listed \<longrightarrow>
            set listed = {tutor. ?eligible tutor start_dt})"
    if "collect_open_slots cfg db subject_id target_date = Some slots" for slots
  proof -
    from that have c: "collect_tutors db target_date (slot_minutes cfg) (weekday target_date)
                  (active_tutors_for_subject db subject_id) Map.empty = Some slots"
      by (simp add: collect_open_slots_def Let_def)
    have member: "tutor \<in> set (active_tutors_for_subject db subject_id)
        \<and> (\<exists>block \<in> set (availability_for_day db tutor (weekday target_date)).
              \<exists>generated end_dt.
                generate_slots block target_date (slot_minutes cfg) = Some generated
                \<and> (k, end_dt) \<in> set generated
                \<and> is_available_for_slot db tutor k end_dt)
        \<longleftrightarrow> ?eligible tutor k" for tutor k
      unfolding set_active_tutors_for_subject set_availability_for_day by auto
    have "dom slots = {k. \<exists>tutor. tutor \<in> set (active_tutors_for_subject db subject_id)
        \<and> (\<exists>block \<in> set (availability_for_day db tutor (weekday target_date)).
              \<exists>generated end_dt.
                generate_slots block target_date (slot_minutes cfg) = Some generated
                \<and> (k, end_dt) \<in> set generated
                \<and> is_available_for_slot db tutor k end_dt)}"
      using dom_collect_tutors[OF c] by auto
    then have keys: "dom slots = {start_dt. \<exists>tutor. ?eligible tutor start_dt}"
      by (simp only: member)
    have no_empty: "\<forall>start_dt \<in> dom slots. slots start_dt \<noteq> Some []"
      using collect_tutors_no_empty[OF c] by simp
    have listed: "set listed = {tutor. ?eligible tutor k}" if "slots k = Some listed"
      for k listed
    proof -
      from that have "set listed = set (tutors_at slots k)" by (simp add: tutors_at_def)
      also have "\<dots> = {tutor. tutor \<in> set (active_tutors_for_subject db subject_id)
        \<and> (\<exists>block \<in> set (availability_for_day db tutor (weekday target_date)).
              \<exists>generated end_dt.
                generate_slots block target_date (slot_minutes cfg) = Some generated
                \<and> (k, end_dt) \<in> set generated
                \<and> is_available_for_slot db tutor k end_dt)}"
        using tutors_at_collect_tutors[OF c, of k] by (auto simp: tutors_at_def)
      also have "\<dots> = {tutor. ?eligible tutor k}"
        by (simp only: member)
      finally show ?thesis .
    qed
    from keys no_empty listed show ?thesis by blast
  qed
  show ?thesis
    unfolding Let_def using ret props by blast
qed

lemma school_generate_slots:
  "generate_slots \<lparr>WA_tutor_id = 1, WA_day_of_week = 0,
       WA_start_time = mk_time 15 0 0, WA_end_time = mk_time 16 0 0\<rparr> monday 30 =
     Some [(combine monday (mk_time 15 0 0), combine monday (mk_time 15 30 0)),
           (combine monday (mk_time 15 30 0), combine monday (mk_time 16 0 0))]"
  "generate_slots \<lparr>WA_tutor_id = 2, WA_day_of_week = 0,
       WA_start_time = mk_time 15 30 0, WA_end_time = mk_time 16 30 0\<rparr> monday 30 =
     Some [(combine monday (mk_time 15 30 0), combine monday (mk_time 16 0 0)),
           (combine monday (mk_time 16 0 0), combine monday (mk_time 16 30 0))]"
  by (simp_all add: generate_slots_def generate_slots_loop.simps monday_def
      combine_def DAY_def mk_time_def timedelta_minutes_def Let_def)

lemma school_available:
  "is_available_for_slot school_db tutor_b
     (combine monday (mk_time 15 30 0)) (combine monday (mk_time 16 0 0))"
  "\<not> is_available_for_slot school_db tutor_b
     (combine monday (mk_time 16 0 0)) (combine monday (mk_time 16 30 0))"
  "\<not> is_available_for_slot school_db tutor_a
     (combine monday (mk_time 15 0 0)) (combine monday (mk_time 15 30 0))"
  "is_available_for_slot school_db tutor_a
     (combine monday (mk_time 15 30 0)) (combine monday (mk_time 16 0 0))"
  by (simp_all add: is_available_for_slot_def Tutor_exceptions_def Tutor_bookings_def
      availability_for_day_def Tutor_weekly_availability_def overlaps_def is_full_day_def
      Let_def school_defs calendar_defs)

lemma school_collect:
  "collect_open_slots default_config school_db 1 monday =
     Some [combine monday (mk_time 15 30 0) \<mapsto> [tutor_b, tutor_a]]"
proof -
  have wd: "weekday monday = 0" by (simp add: weekday_def monday_def)
  have q: "active_tutors_for_subject school_db 1 = [tutor_b, tutor_a]"
    by (simp add: active_tutors_for_subject_def school_defs)
  have av: "availability_for_day school_db tutor_a 0 =
      [\<lparr>WA_tutor_id = 1, WA_day_of_week = 0,
        WA_start_time = mk_time 15 0 0, WA_end_time = mk_time 16 0 0\<rparr>]"
    "availability_for_day school_db tutor_b 0 =
      [\<lparr>WA_tutor_id = 2, WA_day_of_week = 0,
        WA_start_time = mk_time 15 30 0, WA_end_time = mk_time 16 30 0\<rparr>]"
    by (simp_all add: availability_for_day_def Tutor_weekly_availability_def school_defs)
  show ?thesis
    by (simp add: collect_open_slots_def slot_minutes_def default_config_def Let_def
        q wd av school_generate_slots school_available setdefault_append_def)
qed

text \<open>Subject 1 on the Monday of the second database. Of the slots of tutor 1 the one at
  15:00 is booked. Of the slots of tutor 2 the one at 16:00 meets the absence. The slots
  of the inactive tutor 3 (15:00 to 17:00), of tutor 4, who teaches another subject
  (9:00 to 10:00), and of the Tuesday block of tutor 1 (10:00 to 11:00) do not count.
  The one key is 15:30, listing tutors 2 and 1.\<close>

theorem collect_open_slots_keys_witness:
  "1 \<le> slot_minutes default_config
   \<and> collect_open_slots default_config school_db 1 monday =
       Some [combine monday (mk_time 15 30 0) \<mapsto> [tutor_b, tutor_a]]
   \<and> {combine monday (mk_time 15 30 0)} =
       {start_dt. \<exists>tutor.
          tutor \<in> set (tutors school_db) \<and> T_is_active tutor
          \<and> (\<exists>ts \<in> set (tutor_subjects school_db).
                TS_tutor_id ts = T_id tutor \<and> TS_subject_id ts = 1)
          \<and> (\<exists>block \<in> set (weekly_availability school_db).
                WA_tutor_id block = T_id tutor
                \<and> WA_day_of_week block = weekday monday
                \<and> (\<exists>generated end_dt.
                      generate_slots block monday (slot_minutes default_config)
                        = Some generated
                      \<and> (start_dt, end_dt) \<in> set generated
                      \<and> is_available_for_slot school_db tutor start_dt end_dt))}
   \<and> {tutor_a, tutor_b} =
       {tutor.
          tutor \<in> set (tutors school_db) \<and> T_is_active tutor
          \<and> (\<exists>ts \<in> set (tutor_subjects school_db).
                TS_tutor_id ts = T_id tutor \<and> TS_subject_id ts = 1)
          \<and> (\<exists>block \<in> set (weekly_availability school_db).
                WA_tutor_id block = T_id tutor
                \<and> WA_day_of_week block = weekday monday
                \<and> (\<exists>generated end_dt.
                      generate_slots block monday (slot_minutes default_config)
                        = Some generated
                      \<and> (combine monday (mk_time 15 30 0), end_dt) \<in> set generated
                      \<and> is_available_for_slot school_db tutor
                           (combine monday (mk_time 15 30 0)) end_dt))}"
proof -
  have h: "1 \<le> slot_minutes default_config"
    by (simp add: slot_minutes_def default_config_def)
  let ?m = "[combine monday (mk_time 15 30 0) \<mapsto> [tutor_b, tutor_a]]"
  note w = collect_open_slots_keys[where cfg = default_config and db = school_db
      and subject_id = 1 and target_date = monday, unfolded Let_def]
  from w school_collect
  have keys: "dom ?m =
       {start_dt. \<exists>tutor.
          tutor \<in> set (tutors school_db) \<and> T_is_active tutor
          \<and> (\<exists>ts \<in> set (tutor_subjects school_db).
                TS_tutor_id ts = T_id tutor \<and> TS_subject_id ts = 1)
          \<and> (\<exists>block \<in> set (weekly_availability school_db).
                WA_tutor_id block = T_id tutor
                \<and> WA_day_of_week block = weekday monday
                \<and> (\<exists>generated end_dt.
                      generate_slots block monday (slot_minutes default_config)
                        = Some generated
                      \<and> (start_dt, end_dt) \<in> set generated
                      \<and> is_available_for_slot school_db tutor start_dt end_dt))}"
    by blast
  have at: "?m (combine monday (mk_time 15 30 0)) = Some [tutor_b, tutor_a]" by simp
  from w school_collect at
  have listed: "set [tutor_b, tutor_a] =
       {tutor.
          tutor \<in> set (tutors school_db) \<and> T_is_active tutor
          \<and> (\<exists>ts \<in> set (tutor_subjects school_db).
                TS_tutor_id ts = T_id tutor \<and> TS_subject_id ts = 1)
          \<and> (\<exists>block \<in> set (weekly_availability school_db).
                WA_tutor_id block = T_id tutor
                \<and> WA_day_of_week block = weekday monday
                \<and> (\<exists>generated end_dt.
                      generate_slots block monday (slot_minutes default_config)
                        = Some generated
                      \<and> (combine monday (mk_time 15 30 0), end_dt) \<in> set generated
                      \<and> is_available_for_slot school_db tutor
                           (combine monday (mk_time 15 30 0)) end_dt))}"
    by blast
  have d: "dom ?m = {combine monday (mk_time 15 30 0)}" by simp
  have s: "set [tutor_b, tutor_a] = {tutor_a, tutor_b}" by auto
  from h school_collect keys[unfolded d] listed[unfolded s] show ?thesis by blast
qed


end
